theory Spec2Isabelle
  imports Complex_Main
begin

section \<open>Sigma point generators of filterpy (filterpy/kalman/sigma\_points.py)\<close>

text \<open>
  The four classes of \<^verbatim>\<open>sigma_points.py\<close> are embedded as records with their
  methods as functions. Python floats and numpy float64 values are idealised to exact
  reals. Every exception the code can raise is a value of \<open>error\<close>, and a method is a
  function into \<open>error + result\<close>. An IEEE operation that numpy would answer with
  \<open>inf\<close> or \<open>nan\<close> (a division by zero on arrays, the square root of a negative
  number) has no real value: the model stops there with \<open>NotFinite\<close>, although numpy
  itself only warns and goes on.

  A one-dimensional array is the list of its entries and a two-dimensional array is the
  list of its rows; the rows of a two-dimensional array all have the same length.
\<close>

subsection \<open>Errors and values\<close>

datatype error =
    ValueError
  | ZeroDivisionError
  | IndexError
  | TypeError
  | AttributeError
  | Warning
  | LinAlgError
  | NotFinite

type_synonym vec = "real list"
type_synonym matrix = "real list list"

text \<open>
  The mean argument \<open>x\<close>: the docstrings allow a scalar and any array-like object, such
  as a Python list, a tuple or a numpy array (``examples: 1, [1,2], np.array([1,2])'');
  the constructor of GeneralizedSigmaPoints also passes its default \<open>None\<close> on. The code
  converts a scalar only; a list or a tuple stays the Python sequence it is.
\<close>

datatype mean_arg = PyNone | PyScalar real | PyList vec | PyTuple vec | NdArray vec

text \<open>The covariance argument \<open>P\<close>: a scalar, or a two-dimensional array.\<close>

datatype cov_arg = PScalar real | PMat matrix

definition bind_err :: "error + 'a \<Rightarrow> ('a \<Rightarrow> error + 'b) \<Rightarrow> error + 'b" where
  "bind_err m f = (case m of Inl e \<Rightarrow> Inl e | Inr a \<Rightarrow> f a)"

subsection \<open>The numpy operations the code uses\<close>

text \<open>\<^verbatim>\<open>np.size(x)\<close>: the number of elements; a scalar and \<open>None\<close> count as one.\<close>

fun np_size :: "mean_arg \<Rightarrow> nat" where
  "np_size PyNone = 1"
| "np_size (PyScalar a) = 1"
| "np_size (PyList xs) = length xs"
| "np_size (PyTuple xs) = length xs"
| "np_size (NdArray xs) = length xs"

text \<open>\<^verbatim>\<open>if np.isscalar(x): x = np.asarray([x])\<close>\<close>

fun asarray_if_scalar :: "mean_arg \<Rightarrow> mean_arg" where
  "asarray_if_scalar (PyScalar a) = NdArray [a]"
| "asarray_if_scalar x = x"

text \<open>
  The entries of a mean used as an operand of array arithmetic or assigned to a row of a
  float array; \<open>None\<close> there is a TypeError.
\<close>

fun entries :: "mean_arg \<Rightarrow> error + vec" where
  "entries PyNone = Inl TypeError"
| "entries (PyScalar a) = Inr [a]"
| "entries (PyList xs) = Inr xs"
| "entries (PyTuple xs) = Inr xs"
| "entries (NdArray xs) = Inr xs"

definition ncols :: "matrix \<Rightarrow> nat" where
  "ncols M = (case M of [] \<Rightarrow> 0 | r # _ \<Rightarrow> length r)"

text \<open>\<^verbatim>\<open>np.eye(n) * P\<close> for a scalar \<open>P\<close>.\<close>

definition eye_times :: "nat \<Rightarrow> real \<Rightarrow> matrix" where
  "eye_times n p = map (\<lambda>i. map (\<lambda>j. (if i = j then 1 else 0) * p) [0..<n]) [0..<n]"

text \<open>
  \<^verbatim>\<open>if np.isscalar(P): P = np.eye(n) * P  else: P = np.atleast_2d(P)\<close>
\<close>

fun as_matrix :: "nat \<Rightarrow> cov_arg \<Rightarrow> matrix" where
  "as_matrix n (PScalar p) = eye_times n p"
| "as_matrix n (PMat M) = M"

text \<open>A scalar times a two-dimensional array.\<close>

definition scale :: "real \<Rightarrow> matrix \<Rightarrow> matrix" where
  "scale c M = map (map ((*) c)) M"

text \<open>\<^verbatim>\<open>np.zeros((r, c))\<close>\<close>

definition zeros :: "nat \<Rightarrow> nat \<Rightarrow> matrix" where
  "zeros r c = replicate r (replicate c 0)"

text \<open>\<^verbatim>\<open>U[k]\<close>: row \<open>k\<close> of a two-dimensional array, an IndexError out of range.\<close>

definition row_at :: "matrix \<Rightarrow> nat \<Rightarrow> error + vec" where
  "row_at M k = (if k < length M then Inr (M ! k) else Inl IndexError)"

text \<open>
  \<^verbatim>\<open>sigmas[i] = v\<close> for a one-dimensional \<open>v\<close>: the value must have the length of the
  row, or length one (it is then broadcast); any other length is a ValueError.
\<close>

definition set_row :: "matrix \<Rightarrow> nat \<Rightarrow> vec \<Rightarrow> error + matrix" where
  "set_row M i v =
     (if \<not> i < length M then Inl IndexError
      else if length v = length (M ! i) then Inr (M[i := v])
      else if length v = 1 then Inr (M[i := replicate (length (M ! i)) (hd v)])
      else Inl ValueError)"

text \<open>
  Two one-dimensional operands of an elementwise operation, paired by numpy's
  broadcasting: equal lengths, or one of them of length one; any other pair of lengths
  is a ValueError.
\<close>

definition broadcast_pairs :: "vec \<Rightarrow> vec \<Rightarrow> error + (real \<times> real) list" where
  "broadcast_pairs a b =
     (if length a = length b then Inr (zip a b)
      else if length a = 1 then Inr (map (\<lambda>v. (hd a, v)) b)
      else if length b = 1 then Inr (map (\<lambda>u. (u, hd b)) a)
      else Inl ValueError)"

definition broadcast2 :: "(real \<Rightarrow> real \<Rightarrow> real) \<Rightarrow> vec \<Rightarrow> vec \<Rightarrow> error + vec" where
  "broadcast2 f a b = bind_err (broadcast_pairs a b) (\<lambda>ps. Inr (map (\<lambda>(u, v). f u v) ps))"

text \<open>Elementwise division of arrays; a zero divisor gives \<open>inf\<close> or \<open>nan\<close>.\<close>

definition np_divide :: "vec \<Rightarrow> vec \<Rightarrow> error + vec" where
  "np_divide a b =
     bind_err (broadcast_pairs a b) (\<lambda>ps.
       if \<exists>(u, v) \<in> set ps. v = 0 then Inl NotFinite
       else Inr (map (\<lambda>(u, v). u / v) ps))"

text \<open>Division of numpy float64 scalars: a zero divisor gives \<open>inf\<close> or \<open>nan\<close>.\<close>

definition fdiv :: "real \<Rightarrow> real \<Rightarrow> error + real" where
  "fdiv a b = (if b = 0 then Inl NotFinite else Inr (a / b))"

text \<open>\<^verbatim>\<open>np.sqrt\<close> of a number, of an array and of a two-dimensional array.\<close>

definition np_sqrt1 :: "real \<Rightarrow> error + real" where
  "np_sqrt1 a = (if a < 0 then Inl NotFinite else Inr (sqrt a))"

definition np_sqrt :: "vec \<Rightarrow> error + vec" where
  "np_sqrt v = (if \<exists>a \<in> set v. a < 0 then Inl NotFinite else Inr (map sqrt v))"

definition np_sqrt_mat :: "matrix \<Rightarrow> error + matrix" where
  "np_sqrt_mat M =
     (if \<exists>r \<in> set M. \<exists>a \<in> set r. a < 0 then Inl NotFinite else Inr (map (map sqrt) M))"

text \<open>\<^verbatim>\<open>np.min\<close> of a one-dimensional array; of an empty one it is a ValueError.\<close>

definition np_min :: "vec \<Rightarrow> error + real" where
  "np_min v = (case v of [] \<Rightarrow> Inl ValueError | a # as \<Rightarrow> Inr (fold min as a))"

text \<open>\<^verbatim>\<open>v[i]\<close> and \<^verbatim>\<open>v[i] = a\<close> on a one-dimensional array.\<close>

definition item :: "vec \<Rightarrow> nat \<Rightarrow> error + real" where
  "item v i = (if i < length v then Inr (v ! i) else Inl IndexError)"

definition set_item :: "vec \<Rightarrow> nat \<Rightarrow> real \<Rightarrow> error + vec" where
  "set_item v i a = (if i < length v then Inr (v[i := a]) else Inl IndexError)"

text \<open>
  \<^verbatim>\<open>M[:, j]\<close>: column \<open>j\<close> of a two-dimensional array. The index is a Python integer:
  a negative one counts from the last column, and an index outside the columns is an
  IndexError.
\<close>

definition col_at :: "matrix \<Rightarrow> int \<Rightarrow> error + vec" where
  "col_at M j =
     (let c = int (ncols M); j' = (if j < 0 then j + c else j)
      in if 0 \<le> j' \<and> j' < c then Inr (map (\<lambda>r. r ! nat j') M) else Inl IndexError)"

text \<open>\<^verbatim>\<open>np.diag(P)\<close> of a two-dimensional array: its main diagonal.\<close>

definition np_diag :: "matrix \<Rightarrow> vec" where
  "np_diag M = map (\<lambda>i. M ! i ! i) [0..<min (length M) (ncols M)]"

text \<open>\<^verbatim>\<open>M.T\<close> and \<^verbatim>\<open>A.dot(B)\<close> of two-dimensional arrays.\<close>

definition mat_transpose :: "matrix \<Rightarrow> matrix" where
  "mat_transpose M = map (\<lambda>j. map (\<lambda>r. r ! j) M) [0..<ncols M]"

definition mat_dot :: "matrix \<Rightarrow> matrix \<Rightarrow> error + matrix" where
  "mat_dot A B =
     (if ncols A \<noteq> length B then Inl ValueError
      else Inr (map (\<lambda>r. map (\<lambda>j. sum_list (map (\<lambda>k. r ! k * B ! k ! j) [0..<length B]))
                             [0..<ncols B]) A))"

text \<open>
  Elementwise arithmetic of two two-dimensional operands with broadcasting in both
  dimensions.
\<close>

definition broadcast_mat :: "(real \<Rightarrow> real \<Rightarrow> real) \<Rightarrow> matrix \<Rightarrow> matrix \<Rightarrow> error + matrix" where
  "broadcast_mat f A B =
     (let ra = length A; ca = ncols A; rb = length B; cb = ncols B
      in if (ra = rb \<or> ra = 1 \<or> rb = 1) \<and> (ca = cb \<or> ca = 1 \<or> cb = 1)
         then Inr (map (\<lambda>i. map (\<lambda>j. f (A ! (if ra = 1 then 0 else i) ! (if ca = 1 then 0 else j))
                                        (B ! (if rb = 1 then 0 else i) ! (if cb = 1 then 0 else j)))
                              [0..<(if ca = 1 then cb else ca)])
                       [0..<(if ra = 1 then rb else ra)])
         else Inl ValueError)"

text \<open>\<^verbatim>\<open>np.subtract\<close>, the default of the \<open>subtract\<close> parameter.\<close>

definition np_subtract :: "vec \<Rightarrow> vec \<Rightarrow> error + vec" where
  "np_subtract a b = broadcast2 (-) a b"

subsection \<open>scipy.linalg.cholesky, the default of the \<open>sqrt_method\<close> parameter\<close>

text \<open>
  The routine belongs to SciPy, not to this repository. It is modelled by the
  factorisation it documents: for a square, positive definite input it returns the upper
  triangular \<open>U\<close> with positive diagonal and \<open>U\<^sup>T U = A\<close>, reading only the upper
  triangle of \<open>A\<close>, row by row as LAPACK's \<open>potrf\<close> does; a non-square input is a
  ValueError and a pivot that is not positive is a LinAlgError.
\<close>

definition chol_row :: "matrix \<Rightarrow> matrix \<Rightarrow> nat \<Rightarrow> error + vec" where
  "chol_row A Us j =
     (let d = A ! j ! j - sum_list (map (\<lambda>k. (Us ! k ! j)\<^sup>2) [0..<j])
      in if d \<le> 0 then Inl LinAlgError
         else Inr (map (\<lambda>i. if i < j then 0
                              else if i = j then sqrt d
                              else (A ! j ! i - sum_list (map (\<lambda>k. Us ! k ! j * Us ! k ! i) [0..<j]))
                                   / sqrt d)
                       [0..<length A]))"

fun chol_rows :: "matrix \<Rightarrow> nat list \<Rightarrow> matrix \<Rightarrow> error + matrix" where
  "chol_rows A [] Us = Inr Us"
| "chol_rows A (j # js) Us =
     bind_err (chol_row A Us j) (\<lambda>r. chol_rows A js (Us @ [r]))"

definition cholesky :: "matrix \<Rightarrow> error + matrix" where
  "cholesky A =
     (if \<exists>r \<in> set A. length r \<noteq> length A then Inl ValueError
      else chol_rows A [0..<length A] [])"

subsection \<open>MerweScaledSigmaPoints\<close>

record MerweScaledSigmaPoints =
  merwe_n :: nat
  merwe_alpha :: real
  merwe_beta :: real
  merwe_kappa :: real
  merwe_sqrt :: "matrix \<Rightarrow> error + matrix"
  merwe_subtract :: "vec \<Rightarrow> vec \<Rightarrow> error + vec"
  merwe_Wc :: vec
  merwe_Wm :: vec

text \<open>\<^verbatim>\<open>lambda_ = self.alpha**2 * (n + self.kappa) - n\<close>\<close>

definition merwe_lambda :: "nat \<Rightarrow> real \<Rightarrow> real \<Rightarrow> real" where
  "merwe_lambda n alpha kappa = alpha\<^sup>2 * (real n + kappa) - real n"

text \<open>
  \<^verbatim>\<open>_compute_weights\<close>: \<open>n\<close> is a Python int and the parameters are Python floats, so
  the division \<^verbatim>\<open>.5 / (n + lambda_)\<close> by zero raises ZeroDivisionError.
\<close>

definition merwe_compute_weights ::
  "'a MerweScaledSigmaPoints_scheme \<Rightarrow> error + 'a MerweScaledSigmaPoints_scheme" where
  "merwe_compute_weights self =
     (let n = merwe_n self;
          lam = merwe_lambda n (merwe_alpha self) (merwe_kappa self)
      in if real n + lam = 0 then Inl ZeroDivisionError
         else
           let c = 0.5 / (real n + lam);
               Wc = replicate (2 * n + 1) c;
               Wm = replicate (2 * n + 1) c;
               Wc = Wc[0 := lam / (real n + lam) + (1 - (merwe_alpha self)\<^sup>2 + merwe_beta self)];
               Wm = Wm[0 := lam / (real n + lam)]
           in Inr (self\<lparr>merwe_Wc := Wc, merwe_Wm := Wm\<rparr>))"

text \<open>\<^verbatim>\<open>__init__\<close>: \<open>None\<close> for \<open>sqrt_method\<close> and \<open>subtract\<close> selects the defaults.\<close>

definition MerweScaledSigmaPoints_init ::
  "nat \<Rightarrow> real \<Rightarrow> real \<Rightarrow> real \<Rightarrow> (matrix \<Rightarrow> error + matrix) option
     \<Rightarrow> (vec \<Rightarrow> vec \<Rightarrow> error + vec) option \<Rightarrow> error + MerweScaledSigmaPoints" where
  "MerweScaledSigmaPoints_init n alpha beta kappa sqrt_method subtract =
     merwe_compute_weights
       \<lparr>merwe_n = n, merwe_alpha = alpha, merwe_beta = beta, merwe_kappa = kappa,
        merwe_sqrt = (case sqrt_method of None \<Rightarrow> cholesky | Some f \<Rightarrow> f),
        merwe_subtract = (case subtract of None \<Rightarrow> np_subtract | Some f \<Rightarrow> f),
        merwe_Wc = [], merwe_Wm = []\<rparr>"

definition merwe_num_sigmas :: "'a MerweScaledSigmaPoints_scheme \<Rightarrow> nat" where
  "merwe_num_sigmas self = 2 * merwe_n self + 1"

text \<open>
  The loop of \<^verbatim>\<open>sigma_points\<close> over \<^verbatim>\<open>k in range(n)\<close>:
  \<^verbatim>\<open>sigmas[k+1] = self.subtract(x, -U[k]);  sigmas[n+k+1] = self.subtract(x, U[k])\<close>
\<close>

fun spread_loop ::
  "(vec \<Rightarrow> vec \<Rightarrow> error + vec) \<Rightarrow> vec \<Rightarrow> matrix \<Rightarrow> nat \<Rightarrow> nat list \<Rightarrow> matrix \<Rightarrow> error + matrix" where
  "spread_loop sub x U n [] sigmas = Inr sigmas"
| "spread_loop sub x U n (k # ks) sigmas =
     bind_err (row_at U k) (\<lambda>Uk.
     bind_err (sub x (map uminus Uk)) (\<lambda>plus.
     bind_err (set_row sigmas (k + 1) plus) (\<lambda>sigmas.
     bind_err (row_at U k) (\<lambda>Uk.
     bind_err (sub x Uk) (\<lambda>minus.
     bind_err (set_row sigmas (n + k + 1) minus) (\<lambda>sigmas.
     spread_loop sub x U n ks sigmas))))))"

definition merwe_sigma_points ::
  "'a MerweScaledSigmaPoints_scheme \<Rightarrow> mean_arg \<Rightarrow> cov_arg \<Rightarrow> error + matrix" where
  "merwe_sigma_points self x P =
     (if merwe_n self \<noteq> np_size x then Inl ValueError
      else
        let n = merwe_n self;
            x = asarray_if_scalar x;
            P = as_matrix n P;
            lam = merwe_lambda n (merwe_alpha self) (merwe_kappa self)
        in bind_err (merwe_sqrt self (scale (lam + real n) P)) (\<lambda>U.
           bind_err (entries x) (\<lambda>xv.
           bind_err (set_row (zeros (2 * n + 1) n) 0 xv) (\<lambda>sigmas.
           spread_loop (merwe_subtract self) xv U n [0..<n] sigmas))))"

subsection \<open>JulierSigmaPoints\<close>

record JulierSigmaPoints =
  julier_n :: nat
  julier_kappa :: real
  julier_sqrt :: "matrix \<Rightarrow> error + matrix"
  julier_subtract :: "vec \<Rightarrow> vec \<Rightarrow> error + vec"
  julier_Wm :: vec
  julier_Wc :: vec

text \<open>
  \<^verbatim>\<open>_compute_weights\<close>: \<^verbatim>\<open>self.Wm = np.full(2*n+1, .5 / (n + k));
  self.Wm[0] = k / (n+k);  self.Wc = self.Wm\<close>
\<close>

definition julier_compute_weights :: "JulierSigmaPoints \<Rightarrow> error + JulierSigmaPoints" where
  "julier_compute_weights self =
     (let n = julier_n self;
          k = julier_kappa self
      in if real n + k = 0 then Inl ZeroDivisionError
         else
           let Wm = replicate (2 * n + 1) (0.5 / (real n + k));
               Wm = Wm[0 := k / (real n + k)]
           in Inr (self\<lparr>julier_Wm := Wm, julier_Wc := Wm\<rparr>))"

text \<open>\<^verbatim>\<open>__init__(self, n, kappa=0., sqrt_method=None, subtract=None)\<close>\<close>

definition JulierSigmaPoints_init ::
  "nat \<Rightarrow> real \<Rightarrow> (matrix \<Rightarrow> error + matrix) option
     \<Rightarrow> (vec \<Rightarrow> vec \<Rightarrow> error + vec) option \<Rightarrow> error + JulierSigmaPoints" where
  "JulierSigmaPoints_init n kappa sqrt_method subtract =
     julier_compute_weights
       \<lparr>julier_n = n, julier_kappa = kappa,
        julier_sqrt = (case sqrt_method of None \<Rightarrow> cholesky | Some f \<Rightarrow> f),
        julier_subtract = (case subtract of None \<Rightarrow> np_subtract | Some f \<Rightarrow> f),
        julier_Wm = [], julier_Wc = []\<rparr>"

definition julier_num_sigmas :: "JulierSigmaPoints \<Rightarrow> nat" where
  "julier_num_sigmas self = 2 * julier_n self + 1"

text \<open>
  \<^verbatim>\<open>sigma_points\<close>: after the size check \<open>n\<close> is read again as \<^verbatim>\<open>np.size(x)\<close>; the
  loop is the one of MerweScaledSigmaPoints.
\<close>

definition julier_sigma_points :: "JulierSigmaPoints \<Rightarrow> mean_arg \<Rightarrow> cov_arg \<Rightarrow> error + matrix" where
  "julier_sigma_points self x P =
     (if julier_n self \<noteq> np_size x then Inl ValueError
      else
        let x = asarray_if_scalar x;
            n = np_size x;
            P = as_matrix n P
        in bind_err (julier_sqrt self (scale (real n + julier_kappa self) P)) (\<lambda>U.
           bind_err (entries x) (\<lambda>xv.
           bind_err (set_row (zeros (2 * n + 1) n) 0 xv) (\<lambda>sigmas.
           spread_loop (julier_subtract self) xv U n [0..<n] sigmas))))"

subsection \<open>SimplexSigmaPoints\<close>

text \<open>
  Here \<open>subtract\<close> is applied to two-dimensional operands: the mean as a column and the
  scaled simplex directions.
\<close>

record SimplexSigmaPoints =
  simplex_n :: nat
  simplex_alpha :: real
  simplex_sqrt :: "matrix \<Rightarrow> error + matrix"
  simplex_subtract :: "matrix \<Rightarrow> matrix \<Rightarrow> error + matrix"
  simplex_Wm :: vec
  simplex_Wc :: vec

text \<open>\<^verbatim>\<open>c = 1. / (n + 1);  self.Wm = np.full(n + 1, c);  self.Wc = self.Wm\<close>\<close>

definition simplex_compute_weights :: "SimplexSigmaPoints \<Rightarrow> SimplexSigmaPoints" where
  "simplex_compute_weights self =
     (let n = simplex_n self;
          c = 1 / (real n + 1);
          Wm = replicate (n + 1) c
      in self\<lparr>simplex_Wm := Wm, simplex_Wc := Wm\<rparr>)"

text \<open>\<^verbatim>\<open>__init__(self, n, alpha=1, sqrt_method=None, subtract=None)\<close>\<close>

definition SimplexSigmaPoints_init ::
  "nat \<Rightarrow> real \<Rightarrow> (matrix \<Rightarrow> error + matrix) option
     \<Rightarrow> (matrix \<Rightarrow> matrix \<Rightarrow> error + matrix) option \<Rightarrow> SimplexSigmaPoints" where
  "SimplexSigmaPoints_init n alpha sqrt_method subtract =
     simplex_compute_weights
       \<lparr>simplex_n = n, simplex_alpha = alpha,
        simplex_sqrt = (case sqrt_method of None \<Rightarrow> cholesky | Some f \<Rightarrow> f),
        simplex_subtract = (case subtract of None \<Rightarrow> broadcast_mat (-) | Some f \<Rightarrow> f),
        simplex_Wm = [], simplex_Wc = []\<rparr>"

definition simplex_num_sigmas :: "SimplexSigmaPoints \<Rightarrow> nat" where
  "simplex_num_sigmas self = simplex_n self + 1"

text \<open>
  \<^verbatim>\<open>x = x.reshape(-1, 1)\<close>: only an array has the method; a Python list or tuple (and
  \<open>None\<close>) raises AttributeError.
\<close>

fun reshape_column :: "mean_arg \<Rightarrow> error + matrix" where
  "reshape_column (NdArray xs) = Inr (map (\<lambda>a. [a]) xs)"
| "reshape_column x = Inl AttributeError"

text \<open>
  The loop over \<^verbatim>\<open>d in range(2, n+1)\<close> that grows \<open>Istar\<close> by a column of zeros and
  the row \<^verbatim>\<open>[1/r, ..., 1/r, -d/r]\<close> with \<^verbatim>\<open>r = np.sqrt(lambda_*d*(d + 1))\<close>.
\<close>

fun simplex_directions :: "real \<Rightarrow> nat list \<Rightarrow> matrix \<Rightarrow> error + matrix" where
  "simplex_directions lam [] Istar = Inr Istar"
| "simplex_directions lam (d # ds) Istar =
     bind_err (np_sqrt1 (lam * real d * (real d + 1))) (\<lambda>r.
     bind_err (fdiv 1 r) (\<lambda>a.
     bind_err (np_sqrt1 (lam * real d * (real d + 1))) (\<lambda>r.
     bind_err (fdiv (- real d) r) (\<lambda>b.
     let row = replicate (ncols Istar + 1) a;
         row = row[length row - 1 := b]
     in simplex_directions lam ds (map (\<lambda>r. r @ [0]) Istar @ [row])))))"

definition simplex_sigma_points :: "SimplexSigmaPoints \<Rightarrow> mean_arg \<Rightarrow> cov_arg \<Rightarrow> error + matrix" where
  "simplex_sigma_points self x P =
     (if simplex_n self \<noteq> np_size x then Inl ValueError
      else
        let n = simplex_n self;
            x = asarray_if_scalar x
        in bind_err (reshape_column x) (\<lambda>x.
           let P = as_matrix n P
           in bind_err (simplex_sqrt self P) (\<lambda>U.
              let lam = real n / (real n + 1)
              in bind_err (np_sqrt1 (2 * lam)) (\<lambda>r.
                 bind_err (fdiv (- 1) r) (\<lambda>a.
                 bind_err (fdiv 1 r) (\<lambda>b.
                 bind_err (simplex_directions lam [2..<n + 1] [[a, b]]) (\<lambda>Istar.
                 bind_err (np_sqrt1 (real n)) (\<lambda>rn.
                 let I = scale rn Istar
                 in bind_err (mat_dot (mat_transpose U) I) (\<lambda>scaled_unitary.
                    bind_err (simplex_subtract self x (map (map uminus) scaled_unitary)) (\<lambda>sigmas.
                    Inr (mat_transpose sigmas)))))))))))"

subsection \<open>GeneralizedSigmaPoints\<close>

text \<open>The moments \<open>S\<close> and \<open>K\<close>: a scalar (made a one-element array) or a vector.\<close>

datatype moment_arg = MScalar real | MVec vec

fun moment_vec :: "moment_arg \<Rightarrow> vec" where
  "moment_vec (MScalar a) = [a]"
| "moment_vec (MVec v) = v"

record GeneralizedSigmaPoints =
  gen_n :: nat
  gen_x :: mean_arg
  gen_P :: matrix
  gen_S :: vec
  gen_K :: vec
  gen_k :: "real option"
  gen_positively_constrained :: bool
  gen_s :: vec
  gen_Wm :: vec
  gen_Wc :: vec

text \<open>
  The truth value of an array in \<^verbatim>\<open>if\<close>: that of its only element; an array of any
  other size has none (ValueError; for an empty array since NumPy 2.2, which before
  answered False under a DeprecationWarning).
\<close>

definition array_truth :: "bool list \<Rightarrow> error + bool" where
  "array_truth bs = (case bs of [b] \<Rightarrow> Inr b | _ \<Rightarrow> Inl ValueError)"

text \<open>
  \<^verbatim>\<open>if x != self.x\<close>. Two Python lists, or two tuples, compare as sequences and give a
  bool; a list and a tuple are never equal. As soon as one side is an array the
  comparison is elementwise (the other side is broadcast, a list or tuple is read as an
  array, \<open>None\<close> differs from every element; shapes that do not broadcast are a
  ValueError since NumPy 1.25, which before answered True under a DeprecationWarning)
  and its result is an array, whose truth value \<^verbatim>\<open>if\<close> asks for. \<open>None\<close>, a float, a list
  and a tuple differ from each other.
\<close>

definition elementwise_ne :: "vec \<Rightarrow> vec \<Rightarrow> error + bool" where
  "elementwise_ne a b =
     bind_err (broadcast_pairs a b) (\<lambda>ps. array_truth (map (\<lambda>(u, v). u \<noteq> v) ps))"

fun py_ne :: "mean_arg \<Rightarrow> mean_arg \<Rightarrow> error + bool" where
  "py_ne PyNone PyNone = Inr False"
| "py_ne PyNone (PyScalar b) = Inr True"
| "py_ne PyNone (PyList b) = Inr True"
| "py_ne PyNone (PyTuple b) = Inr True"
| "py_ne PyNone (NdArray b) = array_truth (map (\<lambda>v. True) b)"
| "py_ne (PyScalar a) PyNone = Inr True"
| "py_ne (PyScalar a) (PyScalar b) = Inr (a \<noteq> b)"
| "py_ne (PyScalar a) (PyList b) = Inr True"
| "py_ne (PyScalar a) (PyTuple b) = Inr True"
| "py_ne (PyScalar a) (NdArray b) = array_truth (map (\<lambda>v. a \<noteq> v) b)"
| "py_ne (PyList a) PyNone = Inr True"
| "py_ne (PyList a) (PyScalar b) = Inr True"
| "py_ne (PyList a) (PyList b) = Inr (a \<noteq> b)"
| "py_ne (PyList a) (PyTuple b) = Inr True"
| "py_ne (PyList a) (NdArray b) = elementwise_ne a b"
| "py_ne (PyTuple a) PyNone = Inr True"
| "py_ne (PyTuple a) (PyScalar b) = Inr True"
| "py_ne (PyTuple a) (PyList b) = Inr True"
| "py_ne (PyTuple a) (PyTuple b) = Inr (a \<noteq> b)"
| "py_ne (PyTuple a) (NdArray b) = elementwise_ne a b"
| "py_ne (NdArray a) PyNone = array_truth (map (\<lambda>u. True) a)"
| "py_ne (NdArray a) (PyScalar b) = array_truth (map (\<lambda>u. u \<noteq> b) a)"
| "py_ne (NdArray a) (PyList b) = elementwise_ne a b"
| "py_ne (NdArray a) (PyTuple b) = elementwise_ne a b"
| "py_ne (NdArray a) (NdArray b) = elementwise_ne a b"

text \<open>
  The loop of \<^verbatim>\<open>_compute_weights\<close> over \<^verbatim>\<open>i in range(1, self.n+1)\<close>, on the arrays
  \<open>self.s\<close> and \<open>w\<close>:
  \<^verbatim>\<open>
  if compute_free_parameter:
      self.s[i] = 0.5*(-S_[i_] + np.sqrt(4*K_[i_] - 3*S_[i_]**2.0))
  self.s[i+n] = self.s[i] + S_[i_]
  w[i+n] = 1.0/(self.s[i+n]*(self.s[i] + self.s[i+n]))
  w[i] = self.s[i+n]/self.s[i]*w[i+n]
  \<close>
\<close>

fun weights_loop ::
  "bool \<Rightarrow> nat \<Rightarrow> vec \<Rightarrow> vec \<Rightarrow> nat list \<Rightarrow> vec \<Rightarrow> vec \<Rightarrow> error + vec \<times> vec" where
  "weights_loop free n S' K' [] s w = Inr (s, w)"
| "weights_loop free n S' K' (i # is) s w =
     bind_err (if free
               then bind_err (item S' (i - 1)) (\<lambda>Si.
                    bind_err (item K' (i - 1)) (\<lambda>Ki.
                    bind_err (np_sqrt1 (4 * Ki - 3 * Si\<^sup>2)) (\<lambda>r.
                    set_item s i (0.5 * (- Si + r)))))
               else Inr s) (\<lambda>s.
     bind_err (item s i) (\<lambda>si.
     bind_err (item S' (i - 1)) (\<lambda>Si.
     bind_err (set_item s (i + n) (si + Si)) (\<lambda>s.
     bind_err (item s (i + n)) (\<lambda>sin.
     bind_err (item s i) (\<lambda>si.
     bind_err (fdiv 1 (sin * (si + sin))) (\<lambda>win.
     bind_err (set_item w (i + n) win) (\<lambda>w.
     bind_err (fdiv sin si) (\<lambda>q.
     bind_err (item w (i + n)) (\<lambda>win.
     bind_err (set_item w i (q * win)) (\<lambda>w.
     weights_loop free n S' K' is s w)))))))))))"

text \<open>
  \<^verbatim>\<open>_compute_weights(self, compute_free_parameter=True)\<close>:
  \<^verbatim>\<open>std = np.sqrt(np.diag(self.P));  S_ = self.S/std**3.0;  K_ = self.K/std**4.0\<close>,
  the loop, and \<^verbatim>\<open>w[0] = 1 - np.sum(w)\<close>.
\<close>

definition gen_compute_weights :: "bool \<Rightarrow> GeneralizedSigmaPoints \<Rightarrow> error + GeneralizedSigmaPoints" where
  "gen_compute_weights compute_free_parameter self =
     (let n = gen_n self
      in bind_err (np_sqrt (np_diag (gen_P self))) (\<lambda>std.
         bind_err (np_divide (gen_S self) (map (\<lambda>a. a ^ 3) std)) (\<lambda>S'.
         bind_err (np_divide (gen_K self) (map (\<lambda>a. a ^ 4) std)) (\<lambda>K'.
         bind_err (weights_loop compute_free_parameter n S' K' [1..<n + 1] (gen_s self)
                     (replicate (2 * n + 1) 0)) (\<lambda>(s, w).
         bind_err (set_item w 0 (1 - sum_list w)) (\<lambda>w.
         Inr (self\<lparr>gen_s := s, gen_Wm := w, gen_Wc := w\<rparr>)))))))"

text \<open>
  The loop of \<^verbatim>\<open>sigma_points\<close> over \<^verbatim>\<open>i in range(1, self.n+1)\<close>:
  \<^verbatim>\<open>
  sigmas[0]   = x
  sigmas[i]   = x - self.s[i  ]*np.sqrt(P[:, i_])
  sigmas[i+n] = x + self.s[i+n]*np.sqrt(P[:, i_])
  \<close>
\<close>

fun gen_points_loop ::
  "mean_arg \<Rightarrow> matrix \<Rightarrow> vec \<Rightarrow> nat \<Rightarrow> nat list \<Rightarrow> matrix \<Rightarrow> error + matrix" where
  "gen_points_loop x P s n [] sigmas = Inr sigmas"
| "gen_points_loop x P s n (i # is) sigmas =
     bind_err (entries x) (\<lambda>xv.
     bind_err (set_row sigmas 0 xv) (\<lambda>sigmas.
     bind_err (item s i) (\<lambda>si.
     bind_err (col_at P (int i - 1)) (\<lambda>c.
     bind_err (np_sqrt c) (\<lambda>rc.
     bind_err (broadcast2 (-) xv (map ((*) si) rc)) (\<lambda>lower.
     bind_err (set_row sigmas i lower) (\<lambda>sigmas.
     bind_err (item s (i + n)) (\<lambda>sin.
     bind_err (col_at P (int i - 1)) (\<lambda>c.
     bind_err (np_sqrt c) (\<lambda>rc.
     bind_err (broadcast2 (+) xv (map ((*) sin) rc)) (\<lambda>upper.
     bind_err (set_row sigmas (i + n) upper) (\<lambda>sigmas.
     gen_points_loop x P s n is sigmas))))))))))))"

text \<open>
  \<^verbatim>\<open>_redefine_scale_param\<close>, the loop over \<^verbatim>\<open>i in range(len(sigmas))\<close>:
  \<^verbatim>\<open>
  i_=i-1
  if np.min(sigmas[i]) < 0:
      self.s[i] = self.k*np.min(self.x/np.sqrt(self.P)[:, i_])
  \<close>
  The subscript binds tighter than the division: the column \<open>i_\<close> of \<^verbatim>\<open>np.sqrt(self.P)\<close>
  divides \<open>self.x\<close>; \<open>self.k\<close> is \<open>None\<close> unless the caller gave it, and \<open>None\<close> times a
  number is a TypeError.
\<close>

fun redefine_rows ::
  "GeneralizedSigmaPoints \<Rightarrow> matrix \<Rightarrow> nat list \<Rightarrow> error + GeneralizedSigmaPoints" where
  "redefine_rows self sigmas [] = Inr self"
| "redefine_rows self sigmas (i # is) =
     bind_err (row_at sigmas i) (\<lambda>row.
     bind_err (np_min row) (\<lambda>m.
     if m < 0
     then bind_err (np_sqrt_mat (gen_P self)) (\<lambda>rP.
          bind_err (col_at rP (int i - 1)) (\<lambda>c.
          bind_err (entries (gen_x self)) (\<lambda>xv.
          bind_err (np_divide xv c) (\<lambda>q.
          bind_err (np_min q) (\<lambda>mq.
          case gen_k self of
            None \<Rightarrow> Inl TypeError
          | Some k \<Rightarrow>
              bind_err (set_item (gen_s self) i (k * mq)) (\<lambda>s.
              redefine_rows (self\<lparr>gen_s := s\<rparr>) sigmas is))))))
     else redefine_rows self sigmas is))"

definition gen_redefine_scale_param ::
  "GeneralizedSigmaPoints \<Rightarrow> matrix \<Rightarrow> error + GeneralizedSigmaPoints" where
  "gen_redefine_scale_param self sigmas = redefine_rows self sigmas [0..<length sigmas]"

text \<open>
  \<^verbatim>\<open>sigma_points\<close>. Both consistency tests compare \<open>x\<close> with \<open>self.x\<close>. With
  \<open>positively_constrained\<close> the method changes \<open>self.s\<close> and the weights, so it returns
  the object along with the points.
\<close>

definition gen_sigma_points ::
  "GeneralizedSigmaPoints \<Rightarrow> mean_arg \<Rightarrow> cov_arg \<Rightarrow> error + GeneralizedSigmaPoints \<times> matrix" where
  "gen_sigma_points self x P =
     (if gen_n self \<noteq> np_size x then Inl ValueError
      else
        let n = gen_n self;
            x = asarray_if_scalar x;
            P = as_matrix n P
        in bind_err (py_ne x (gen_x self)) (\<lambda>differs.
           if differs then Inl Warning
           else
           bind_err (py_ne x (gen_x self)) (\<lambda>differs.
           if differs then Inl Warning
           else
           bind_err (gen_points_loop x P (gen_s self) n [1..<n + 1] (zeros (2 * n + 1) n)) (\<lambda>sigmas.
           if gen_positively_constrained self
           then bind_err (gen_redefine_scale_param self sigmas) (\<lambda>self.
                bind_err (gen_compute_weights False self) (\<lambda>self.
                bind_err (gen_points_loop x P (gen_s self) n [1..<n + 1] sigmas) (\<lambda>sigmas.
                Inr (self, sigmas))))
           else Inr (self, sigmas)))))"

text \<open>
  \<^verbatim>\<open>__init__(self, n, P, S, K, positively_constrained=False, k=None, x=None)\<close>: with
  \<open>positively_constrained\<close> the constructor calls \<^verbatim>\<open>self.sigma_points(x, P)\<close> and
  drops the points.
\<close>

definition GeneralizedSigmaPoints_init ::
  "nat \<Rightarrow> cov_arg \<Rightarrow> moment_arg \<Rightarrow> moment_arg \<Rightarrow> bool \<Rightarrow> real option \<Rightarrow> mean_arg
     \<Rightarrow> error + GeneralizedSigmaPoints" where
  "GeneralizedSigmaPoints_init n P S K positively_constrained k x =
     (let x = asarray_if_scalar x;
          P = as_matrix n P;
          self = \<lparr>gen_n = n, gen_x = x, gen_P = P, gen_S = moment_vec S, gen_K = moment_vec K,
                  gen_k = k, gen_positively_constrained = positively_constrained,
                  gen_s = replicate (2 * n + 1) 0, gen_Wm = [], gen_Wc = []\<rparr>
      in bind_err (gen_compute_weights True self) (\<lambda>self.
         if positively_constrained
         then bind_err (gen_sigma_points self x (PMat P)) (\<lambda>(self, sigmas). Inr self)
         else Inr self))"

definition gen_num_sigmas :: "GeneralizedSigmaPoints \<Rightarrow> nat" where
  "gen_num_sigmas self = 2 * gen_n self + 1"

subsection \<open>Objects used in the examples\<close>

text \<open>
  The object built by \<^verbatim>\<open>GeneralizedSigmaPoints(1, 1., 0., 1., True, k=.5, x=5.)\<close>.
\<close>

definition gen_symmetric :: GeneralizedSigmaPoints where
  "gen_symmetric = \<lparr>gen_n = 1, gen_x = NdArray [5], gen_P = [[1]], gen_S = [0], gen_K = [1],
         gen_k = Some (1 / 2), gen_positively_constrained = True,
         gen_s = [0, 1, 1], gen_Wm = [0, 1 / 2, 1 / 2], gen_Wc = [0, 1 / 2, 1 / 2]\<rparr>"

text \<open>
  The object inside \<^verbatim>\<open>GeneralizedSigmaPoints(1, 1., -2., 7., True, k=.5, x=1.)\<close>
  after the first \<^verbatim>\<open>_compute_weights()\<close>, before the constructor calls \<^verbatim>\<open>sigma_points\<close>.
\<close>

definition gen_skewed_trial :: GeneralizedSigmaPoints where
  "gen_skewed_trial = \<lparr>gen_n = 1, gen_x = NdArray [1], gen_P = [[1]], gen_S = [- 2], gen_K = [7],
          gen_k = Some (1 / 2), gen_positively_constrained = True,
          gen_s = [0, 3, 1], gen_Wm = [2 / 3, 1 / 12, 1 / 4], gen_Wc = [2 / 3, 1 / 12, 1 / 4]\<rparr>"

text \<open>
  The object that the same constructor call returns.
\<close>

definition gen_skewed :: GeneralizedSigmaPoints where
  "gen_skewed = \<lparr>gen_n = 1, gen_x = NdArray [1], gen_P = [[1]], gen_S = [- 2], gen_K = [7],
         gen_k = Some (1 / 2), gen_positively_constrained = True,
         gen_s = [0, 1 / 2, - 3 / 2], gen_Wm = [7 / 3, - 2, 2 / 3], gen_Wc = [7 / 3, - 2, 2 / 3]\<rparr>"

text \<open>
  The object built by
  \<^verbatim>\<open>GeneralizedSigmaPoints(2, [[1,0],[0,1]], [0,0], [1,1], x=[1.,2.])\<close>, its mean a Python list.
\<close>

definition gen_list_mean :: GeneralizedSigmaPoints where
  "gen_list_mean = \<lparr>gen_n = 2, gen_x = PyList [1, 2], gen_P = [[1, 0], [0, 1]], gen_S = [0, 0],
         gen_K = [1, 1], gen_k = None, gen_positively_constrained = False,
         gen_s = [0, 1, 1, 1, 1], gen_Wm = [- 1, 1 / 2, 1 / 2, 1 / 2, 1 / 2],
         gen_Wc = [- 1, 1 / 2, 1 / 2, 1 / 2, 1 / 2]\<rparr>"

text \<open>
  The object built by
  \<^verbatim>\<open>GeneralizedSigmaPoints(2, [[1,0],[0,1]], [0,0], [1,1], x=(1.,2.))\<close>, its mean a tuple.
\<close>

definition gen_tuple_mean :: GeneralizedSigmaPoints where
  "gen_tuple_mean = \<lparr>gen_n = 2, gen_x = PyTuple [1, 2], gen_P = [[1, 0], [0, 1]], gen_S = [0, 0],
         gen_K = [1, 1], gen_k = None, gen_positively_constrained = False,
         gen_s = [0, 1, 1, 1, 1], gen_Wm = [- 1, 1 / 2, 1 / 2, 1 / 2, 1 / 2],
         gen_Wc = [- 1, 1 / 2, 1 / 2, 1 / 2, 1 / 2]\<rparr>"

text \<open>
  An object with two distinct columns in \<open>P\<close> and a negative mean, for
  \<^verbatim>\<open>_redefine_scale_param\<close> on row \<open>0\<close>.
\<close>

definition gen_negative_mean :: GeneralizedSigmaPoints where
  "gen_negative_mean = \<lparr>gen_n = 2, gen_x = PyList [- 4, - 4], gen_P = [[1, 4], [4, 16]], gen_S = [0, 0],
         gen_K = [1, 1], gen_k = Some 1, gen_positively_constrained = True,
         gen_s = [0, 0, 0, 0, 0], gen_Wm = [], gen_Wc = []\<rparr>"

text \<open>
  The object inside
  \<^verbatim>\<open>GeneralizedSigmaPoints(2, [[1,0],[0,1]], [0,0], [1,1], True, k=1., x=np.array([1.,2.]))\<close>
  after the first \<^verbatim>\<open>_compute_weights()\<close>, its mean a numpy array.
\<close>

definition gen_array_mean :: GeneralizedSigmaPoints where
  "gen_array_mean = \<lparr>gen_n = 2, gen_x = NdArray [1, 2], gen_P = [[1, 0], [0, 1]], gen_S = [0, 0],
         gen_K = [1, 1], gen_k = Some 1, gen_positively_constrained = True,
         gen_s = [0, 1, 1, 1, 1], gen_Wm = [- 1, 1 / 2, 1 / 2, 1 / 2, 1 / 2],
         gen_Wc = [- 1, 1 / 2, 1 / 2, 1 / 2, 1 / 2]\<rparr>"

text \<open>
  The object inside
  \<^verbatim>\<open>GeneralizedSigmaPoints(2, [[1,.25],[.25,1]], [-5,10], [31,111], True, k=.5, x=[10.,.1])\<close>
  after the first \<^verbatim>\<open>_compute_weights()\<close>, and the object that the constructor returns.
\<close>

definition gen_correlated_trial :: GeneralizedSigmaPoints where
  "gen_correlated_trial =
     \<lparr>gen_n = 2, gen_x = PyList [10, 1 / 10], gen_P = [[1, 1 / 4], [1 / 4, 1]],
      gen_S = [- 5, 10], gen_K = [31, 111], gen_k = Some (1 / 2),
      gen_positively_constrained = True,
      gen_s = [0, 6, 1, 1, 11], gen_Wm = [49 / 66, 1 / 42, 1 / 12, 1 / 7, 1 / 132],
      gen_Wc = [49 / 66, 1 / 42, 1 / 12, 1 / 7, 1 / 132]\<rparr>"

definition gen_correlated :: GeneralizedSigmaPoints where
  "gen_correlated =
     \<lparr>gen_n = 2, gen_x = PyList [10, 1 / 10], gen_P = [[1, 1 / 4], [1 / 4, 1]],
      gen_S = [- 5, 10], gen_K = [31, 111], gen_k = Some (1 / 2),
      gen_positively_constrained = True,
      gen_s = [0, 1 / 10, 1 / 20, - 49 / 10, 201 / 20],
      gen_Wm = [10349 / 9849, - 25 / 12, 200 / 101, 25 / 588, 200 / 20301],
      gen_Wc = [10349 / 9849, - 25 / 12, 200 / 101, 25 / 588, 200 / 20301]\<rparr>"

section \<open>Properties\<close>

subsection \<open>Auxiliary facts\<close>

lemma bind_err_Inl [simp]: "bind_err (Inl e) f = Inl e"
  by (simp add: bind_err_def)

lemma bind_err_Inr [simp]: "bind_err (Inr a) f = f a"
  by (simp add: bind_err_def)

lemma spread_loop_rows:
  assumes "distinct ks" "\<forall>k\<in>set ks. k < n" "length sigmas = 2 * n + 1"
    "\<forall>i<2 * n + 1. length (sigmas ! i) = n" "n \<le> length U"
    "\<forall>k\<in>set ks. \<exists>p m. sub x (map uminus (U ! k)) = Inr p \<and> length p = n
          \<and> sub x (U ! k) = Inr m \<and> length m = n"
  shows "\<exists>S. spread_loop sub x U n ks sigmas = Inr S \<and> length S = 2 * n + 1
     \<and> (\<forall>i<2 * n + 1. length (S ! i) = n)
     \<and> (\<forall>k\<in>set ks. sub x (map uminus (U ! k)) = Inr (S ! (k + 1))
                   \<and> sub x (U ! k) = Inr (S ! (n + k + 1)))
     \<and> (\<forall>i<2 * n + 1. (\<forall>k\<in>set ks. i \<noteq> k + 1 \<and> i \<noteq> n + k + 1) \<longrightarrow> S ! i = sigmas ! i)"
  using assms
proof (induction ks arbitrary: sigmas)
  case Nil
  then show ?case by simp
next
  case (Cons k ks)
  from Cons.prems obtain p m where pm: "sub x (map uminus (U ! k)) = Inr p" "length p = n"
     "sub x (U ! k) = Inr m" "length m = n" by auto
  have kn: "k < n" using Cons.prems by simp
  let ?s1 = "sigmas[k + 1 := p]"
  let ?s2 = "?s1[n + k + 1 := m]"
  have r: "row_at U k = Inr (U ! k)" using kn Cons.prems(5) by (simp add: row_at_def)
  have s1: "set_row sigmas (k + 1) p = Inr ?s1"
    using kn Cons.prems(3,4) pm by (simp add: set_row_def)
  have s2: "set_row ?s1 (n + k + 1) m = Inr ?s2"
    using kn Cons.prems(3,4) pm by (simp add: set_row_def)
  have step: "spread_loop sub x U n (k # ks) sigmas = spread_loop sub x U n ks ?s2"
    using s1 s2 by (simp add: r pm)
  have len2: "length ?s2 = 2 * n + 1" using Cons.prems(3) by simp
  have rows2: "\<forall>i<2 * n + 1. length (?s2 ! i) = n"
    using kn Cons.prems(3,4) pm(2,4) by (simp add: nth_list_update)
  from Cons.prems have d: "distinct ks" "\<forall>k\<in>set ks. k < n" "k \<notin> set ks" by auto
  have subs: "\<forall>k\<in>set ks. \<exists>p m. sub x (map uminus (U ! k)) = Inr p \<and> length p = n
          \<and> sub x (U ! k) = Inr m \<and> length m = n" using Cons.prems(6) by simp
  from Cons.IH[OF d(1) d(2) len2 rows2 Cons.prems(5) subs]
  obtain S where S: "spread_loop sub x U n ks ?s2 = Inr S" "length S = 2 * n + 1"
     "\<forall>i<2 * n + 1. length (S ! i) = n"
     "\<forall>k\<in>set ks. sub x (map uminus (U ! k)) = Inr (S ! (k + 1))
                   \<and> sub x (U ! k) = Inr (S ! (n + k + 1))"
     "\<forall>i<2 * n + 1. (\<forall>k\<in>set ks. i \<noteq> k + 1 \<and> i \<noteq> n + k + 1) \<longrightarrow> S ! i = ?s2 ! i"
    by blast
  have k1: "S ! (k + 1) = p"
  proof -
    have "\<forall>j\<in>set ks. k + 1 \<noteq> j + 1 \<and> k + 1 \<noteq> n + j + 1" using d kn by auto
    then have "S ! (k + 1) = ?s2 ! (k + 1)" using S(5) kn by simp
    then show ?thesis using kn Cons.prems(3) by (simp add: nth_list_update)
  qed
  have k2: "S ! (n + k + 1) = m"
  proof -
    have "\<forall>j\<in>set ks. n + k + 1 \<noteq> j + 1 \<and> n + k + 1 \<noteq> n + j + 1" using d kn by auto
    then have "S ! (n + k + 1) = ?s2 ! (n + k + 1)" using S(5) kn by simp
    then show ?thesis using kn Cons.prems(3) by (simp add: nth_list_update)
  qed
  have other: "\<forall>i<2 * n + 1. (\<forall>j\<in>set (k # ks). i \<noteq> j + 1 \<and> i \<noteq> n + j + 1) \<longrightarrow> S ! i = sigmas ! i"
  proof (intro allI impI)
    fix i assume i: "i < 2 * n + 1" and ne: "\<forall>j\<in>set (k # ks). i \<noteq> j + 1 \<and> i \<noteq> n + j + 1"
    then have "S ! i = ?s2 ! i" using S(5) by simp
    also have "\<dots> = sigmas ! i" using ne by simp
    finally show "S ! i = sigmas ! i" .
  qed
  show ?case
    unfolding step using S(1,2,3,4) k1 k2 pm other by auto
qed


lemma entries_length:
  assumes "entries (asarray_if_scalar x) = Inr xv"
  shows "length xv = np_size x"
  using assms by (cases x) auto

lemma zeros_props: "length (zeros r c) = r" "i < r \<Longrightarrow> zeros r c ! i = replicate c 0"
  by (simp_all add: zeros_def)

lemma merwe_sigma_points_aux:
  fixes self :: "'a MerweScaledSigmaPoints_scheme"
  defines "n \<equiv> merwe_n self"
  defines "lam \<equiv> merwe_lambda (merwe_n self) (merwe_alpha self) (merwe_kappa self)"
  assumes size: "np_size x = n"
    and xv: "entries (asarray_if_scalar x) = Inr xv"
    and U: "merwe_sqrt self (scale (lam + real n) (as_matrix n P)) = Inr U"
    and rows: "n \<le> length U"
    and sub: "\<forall>k<n. \<exists>p m. merwe_subtract self xv (map uminus (U ! k)) = Inr p \<and> length p = n
          \<and> merwe_subtract self xv (U ! k) = Inr m \<and> length m = n"
  shows "\<exists>S. merwe_sigma_points self x P = Inr S \<and> length S = 2 * n + 1
     \<and> (\<forall>i<2 * n + 1. length (S ! i) = n) \<and> S ! 0 = xv
     \<and> (\<forall>k<n. merwe_subtract self xv (map uminus (U ! k)) = Inr (S ! (k + 1))
              \<and> merwe_subtract self xv (U ! k) = Inr (S ! (n + k + 1)))"
proof -
  have lx: "length xv = n" using entries_length[OF xv] size by simp
  let ?z = "(zeros (2 * n + 1) n)[0 := xv]"
  have z: "set_row (zeros (2 * n + 1) n) 0 xv = Inr ?z"
    using lx by (simp add: set_row_def zeros_props)
  have zl: "length ?z = 2 * n + 1" by (simp add: zeros_props)
  have zr: "\<forall>i<2 * n + 1. length (?z ! i) = n"
    using lx by (simp add: zeros_props nth_list_update)
  have sub': "\<forall>k\<in>set [0..<n]. \<exists>p m. merwe_subtract self xv (map uminus (U ! k)) = Inr p \<and> length p = n
          \<and> merwe_subtract self xv (U ! k) = Inr m \<and> length m = n"
    using sub by simp
  have "distinct [0..<n]" "\<forall>k\<in>set [0..<n]. k < n" by simp_all
  from spread_loop_rows[where sub = "merwe_subtract self" and x = xv and U = U, OF this zl zr rows sub']
  obtain S where S: "spread_loop (merwe_subtract self) xv U n [0..<n] ?z = Inr S"
    "length S = 2 * n + 1" "\<forall>i<2 * n + 1. length (S ! i) = n"
    "\<forall>k\<in>set [0..<n]. merwe_subtract self xv (map uminus (U ! k)) = Inr (S ! (k + 1))
                   \<and> merwe_subtract self xv (U ! k) = Inr (S ! (n + k + 1))"
    "\<forall>i<2 * n + 1. (\<forall>k\<in>set [0..<n]. i \<noteq> k + 1 \<and> i \<noteq> n + k + 1) \<longrightarrow> S ! i = ?z ! i"
    by blast
  have "S ! 0 = ?z ! 0" using S(5) by simp
  then have s0: "S ! 0 = xv" by (simp add: zeros_props)
  have run: "merwe_sigma_points self x P = Inr S"
    using size U xv z S(1) by (simp add: merwe_sigma_points_def Let_def n_def lam_def)
  show ?thesis using run S(2,3,4) s0 by simp
qed

lemma sum_append_range:
  fixes h :: "nat \<Rightarrow> real"
  shows "(\<Sum>i<n + m. h i) = (\<Sum>i<n. h i) + (\<Sum>i<m. h (n + i))"
  by (induction m) (simp_all add: add.assoc)

lemma sum_sigma_split:
  fixes f :: "nat \<Rightarrow> real"
  shows "(\<Sum>i<2 * n + 1. f i) = f 0 + (\<Sum>k<n. f (Suc k)) + (\<Sum>k<n. f (Suc (n + k)))"
proof -
  have "(\<Sum>i<2 * n + 1. f i) = f 0 + (\<Sum>i<n + n. f (Suc i))"
    using sum.lessThan_Suc_shift[of f "2 * n"] by (simp add: mult_2)
  also have "(\<Sum>i<n + n. f (Suc i)) = (\<Sum>k<n. f (Suc k)) + (\<Sum>k<n. f (Suc (n + k)))"
    by (rule sum_append_range)
  finally show ?thesis by simp
qed


lemma merwe_init_aux:
  assumes "real n + merwe_lambda n alpha kappa \<noteq> 0"
  shows "\<exists>g. MerweScaledSigmaPoints_init n alpha beta kappa sq sub = Inr g
     \<and> merwe_n g = n \<and> merwe_alpha g = alpha \<and> merwe_beta g = beta \<and> merwe_kappa g = kappa
     \<and> merwe_sqrt g = (case sq of None \<Rightarrow> cholesky | Some f \<Rightarrow> f)
     \<and> merwe_subtract g = (case sub of None \<Rightarrow> np_subtract | Some f \<Rightarrow> f)
     \<and> merwe_Wm g = (replicate (2 * n + 1) (0.5 / (real n + merwe_lambda n alpha kappa)))
           [0 := merwe_lambda n alpha kappa / (real n + merwe_lambda n alpha kappa)]
     \<and> merwe_Wc g = (replicate (2 * n + 1) (0.5 / (real n + merwe_lambda n alpha kappa)))
           [0 := merwe_lambda n alpha kappa / (real n + merwe_lambda n alpha kappa)
                  + (1 - alpha\<^sup>2 + beta)]"
  using assms
  by (simp add: MerweScaledSigmaPoints_init_def merwe_compute_weights_def Let_def)

lemma np_subtract_same_length:
  assumes "length a = length b"
  shows "np_subtract a b = Inr (map2 (-) a b)"
  using assms by (simp add: np_subtract_def broadcast2_def broadcast_pairs_def)

lemma scale_nth:
  assumes "j < length M" "l < length (M ! j)"
  shows "scale c M ! j ! l = c * M ! j ! l"
  using assms by (simp add: scale_def)

lemma split_unit:
  fixes a b x :: real
  assumes "b + a \<noteq> 0"
  shows "a / (b + a) * x + b / (b + a) * x = x"
proof -
  have "a / (b + a) * x + b / (b + a) * x = (a / (b + a) + b / (b + a)) * x"
    by (simp only: distrib_right)
  also have "a / (b + a) + b / (b + a) = (a + b) / (b + a)"
    by (simp only: add_divide_distrib)
  also have "\<dots> = 1" using assms by (simp add: add.commute)
  finally show ?thesis by simp
qed

lemma chol_4: "cholesky [[4]] = Inr [[2]]"
  by (simp add: cholesky_def chol_row_def)

lemma bind_err_Inr_iff: "bind_err m f = Inr y \<longleftrightarrow> (\<exists>a. m = Inr a \<and> f a = Inr y)"
  by (cases m) simp_all

lemma sum_list_update_head:
  fixes w :: "real list"
  assumes "w \<noteq> []"
  shows "sum_list (w[0 := a]) = a + sum_list w - w ! 0"
  using assms by (cases w) simp_all

lemma set_item_Inr:
  assumes "set_item v i a = Inr v'"
  shows "v' = v[i := a] \<and> i < length v"
  using assms by (simp add: set_item_def split: if_splits)

lemma weights_loop_head:
  assumes "weights_loop free n S' K' is s w = Inr (s', w')" "0 \<notin> set is"
  shows "length w' = length w \<and> w' ! 0 = w ! 0"
  using assms
proof (induction "is" arbitrary: s w)
  case Nil
  then show ?case by simp
next
  case (Cons i "is")
  from Cons.prems(2) have i: "i \<noteq> 0" "0 \<notin> set is" by auto
  from Cons.prems(1) obtain s1 w1 w2 a b where
    w1: "set_item w (i + n) a = Inr w1" and w2: "set_item w1 i b = Inr w2"
    and rest: "weights_loop free n S' K' is s1 w2 = Inr (s', w')"
    by (auto simp add: bind_err_Inr_iff)
  from set_item_Inr[OF w1] set_item_Inr[OF w2] i
  have "length w2 = length w" "w2 ! 0 = w ! 0" by (auto simp add: nth_list_update)
  with Cons.IH[OF rest i(2)] show ?case by simp
qed

lemma gen_compute_weights_sum:
  assumes "gen_compute_weights free g = Inr g'"
  shows "sum_list (gen_Wm g') = 1"
proof -
  from assms obtain S' K' s w w' where
    loop: "weights_loop free (gen_n g) S' K' [1..<gen_n g + 1] (gen_s g) (replicate (2 * gen_n g + 1) 0) = Inr (s, w)"
    and w': "set_item w 0 (1 - sum_list w) = Inr w'"
    and g': "g' = g\<lparr>gen_s := s, gen_Wm := w', gen_Wc := w'\<rparr>"
    by (auto simp add: gen_compute_weights_def Let_def bind_err_Inr_iff)
  have "0 \<notin> set [1..<gen_n g + 1]" by simp
  from weights_loop_head[OF loop this]
  have w: "length w = 2 * gen_n g + 1" "w ! 0 = 0" by simp_all
  then have ne: "w \<noteq> []" by auto
  from set_item_Inr[OF w'] have "w' = w[0 := 1 - sum_list w]" by simp
  then have "sum_list w' = 1" using sum_list_update_head[OF ne] w(2) by simp
  then show ?thesis by (simp add: g')
qed

lemma gen_sigma_points_sum:
  assumes "gen_sigma_points g x P = Inr (g', S)" "gen_positively_constrained g"
  shows "sum_list (gen_Wm g') = 1"
proof -
  from assms obtain g1 where "gen_compute_weights False g1 = Inr g'"
    by (auto simp add: gen_sigma_points_def Let_def bind_err_Inr_iff split: if_splits)
  then show ?thesis by (rule gen_compute_weights_sum)
qed

lemma gen_compute_weights_frame:
  assumes "gen_compute_weights free g = Inr g'"
  shows "gen_positively_constrained g' = gen_positively_constrained g"
  using assms
  by (auto simp add: gen_compute_weights_def Let_def bind_err_Inr_iff)

lemma gen_init_sum:
  assumes "GeneralizedSigmaPoints_init n P S K pc k x = Inr g"
  shows "sum_list (gen_Wm g) = 1"
proof (cases pc)
  case True
  with assms obtain g0 g1 sigmas where g1: "gen_compute_weights True g0 = Inr g1"
    and g0: "gen_positively_constrained g0"
    and fin: "gen_sigma_points g1 (asarray_if_scalar x) (PMat (as_matrix n P)) = Inr (g, sigmas)"
    by (auto simp add: GeneralizedSigmaPoints_init_def Let_def bind_err_Inr_iff)
  from gen_compute_weights_frame[OF g1] g0 have "gen_positively_constrained g1" by simp
  with fin show ?thesis by (rule gen_sigma_points_sum)
next
  case False
  with assms obtain g0 where "gen_compute_weights True g0 = Inr g"
    by (auto simp add: GeneralizedSigmaPoints_init_def Let_def bind_err_Inr_iff)
  then show ?thesis by (rule gen_compute_weights_sum)
qed

lemma half_twice: "real (2 * n) * (0.5 / d) = real n / d"
proof -
  have "real (2 * n) * (0.5 / d) = (real n * 2) * ((1 / 2) * (1 / d))" by simp
  also have "\<dots> = real n * (2 * (1 / 2)) * (1 / d)" by (simp only: mult.assoc)
  also have "\<dots> = real n / d" by simp
  finally show ?thesis .
qed

lemma unit_frac: "real (n + 1) * (1 / (real n + 1)) = 1"
proof -
  have "real n + 1 \<noteq> 0" by (metis of_nat_Suc of_nat_eq_0_iff nat.distinct(2) add.commute)
  then show ?thesis by simp
qed

lemma merwe_sum:
  assumes "real n + merwe_lambda n alpha kappa \<noteq> 0"
  shows "\<exists>g. MerweScaledSigmaPoints_init n alpha beta kappa sq sub = Inr g \<and> sum_list (merwe_Wm g) = 1"
proof -
  from merwe_init_aux[OF assms, of beta sq sub]
  obtain g where g: "MerweScaledSigmaPoints_init n alpha beta kappa sq sub = Inr g"
    "merwe_Wm g = (replicate (2 * n + 1) (0.5 / (real n + merwe_lambda n alpha kappa)))
           [0 := merwe_lambda n alpha kappa / (real n + merwe_lambda n alpha kappa)]"
    by blast
  let ?l = "merwe_lambda n alpha kappa"
  have "sum_list (merwe_Wm g) = ?l / (real n + ?l) + real (2 * n) * (0.5 / (real n + ?l))"
    by (simp add: g sum_list_replicate)
  also have "\<dots> = ?l / (real n + ?l) + real n / (real n + ?l)" by (simp only: half_twice)
  also have "\<dots> = ?l / (real n + ?l) * 1 + real n / (real n + ?l) * 1" by simp
  also have "\<dots> = 1" using assms by (rule split_unit)
  finally show ?thesis using g(1) by blast
qed

lemma julier_sum:
  assumes "real n + kappa \<noteq> 0"
  shows "\<exists>g. JulierSigmaPoints_init n kappa sq sub = Inr g \<and> sum_list (julier_Wm g) = 1"
proof -
  let ?W = "(replicate (2 * n + 1) (0.5 / (real n + kappa)))[0 := kappa / (real n + kappa)]"
  let ?g = "\<lparr>julier_n = n, julier_kappa = kappa,
        julier_sqrt = (case sq of None \<Rightarrow> cholesky | Some f \<Rightarrow> f),
        julier_subtract = (case sub of None \<Rightarrow> np_subtract | Some f \<Rightarrow> f),
        julier_Wm = ?W, julier_Wc = ?W\<rparr>"
  have g: "JulierSigmaPoints_init n kappa sq sub = Inr ?g"
    using assms by (simp add: JulierSigmaPoints_init_def julier_compute_weights_def Let_def)
  have "sum_list ?W = kappa / (real n + kappa) + real (2 * n) * (0.5 / (real n + kappa))"
    by (simp add: sum_list_replicate)
  also have "\<dots> = kappa / (real n + kappa) + real n / (real n + kappa)" by (simp only: half_twice)
  also have "\<dots> = kappa / (real n + kappa) * 1 + real n / (real n + kappa) * 1" by simp
  also have "\<dots> = 1" using assms by (rule split_unit)
  finally show ?thesis using g by simp
qed

lemma simplex_sum: "sum_list (simplex_Wm (SimplexSigmaPoints_init n alpha sq sub)) = 1"
proof -
  have W: "simplex_Wm (SimplexSigmaPoints_init n alpha sq sub) = replicate (n + 1) (1 / (real n + 1))"
    by (simp add: SimplexSigmaPoints_init_def simplex_compute_weights_def Let_def)
  have "sum_list (replicate (n + 1) (1 / (real n + 1))) = real (n + 1) * (1 / (real n + 1))"
    by (rule sum_list_replicate)
  also have "\<dots> = 1" by (rule unit_frac)
  finally show ?thesis unfolding W .
qed

lemma sqrt_16: "sqrt 16 = 4"
proof -
  have "sqrt (4\<^sup>2) = 4" by simp
  then show ?thesis by simp
qed

lemma upt_1_2: "[1..<2] = [1]" by (simp add: upt_rec)
lemma upt_0_3: "[0..<3] = [0, 1, 2]" by (simp add: upt_rec)
lemma upt_0_1: "[0..<1] = [0]" by (simp add: upt_rec)

lemmas np_defs = np_sqrt_def np_sqrt1_def np_sqrt_mat_def np_divide_def np_min_def fdiv_def
  item_def set_item_def col_at_def row_at_def set_row_def np_diag_def ncols_def
  broadcast2_def broadcast_pairs_def elementwise_ne_def array_truth_def zeros_def
  eye_times_def

lemma gen_symmetric_fields:
  "gen_n gen_symmetric = 1" "gen_x gen_symmetric = NdArray [5]" "gen_P gen_symmetric = [[1]]" "gen_s gen_symmetric = [0, 1, 1]"
  "gen_positively_constrained gen_symmetric" "gen_k gen_symmetric = Some (1 / 2)"
  by (simp_all add: gen_symmetric_def)

lemma gen_symmetric_weights: "gen_compute_weights free gen_symmetric = Inr gen_symmetric"
  by (cases free) (simp_all add: gen_compute_weights_def gen_symmetric_def Let_def np_defs upt_1_2 upt_0_1 numeral_eq_Suc)

lemma gen_symmetric_points:
  "gen_points_loop (NdArray [5]) [[4]] [0, 1, 1] 1 [1..<1 + 1] (zeros (2 * 1 + 1) 1) = Inr [[5], [3], [7]]"
  "gen_points_loop (NdArray [5]) [[4]] [0, 1, 1] 1 [1..<1 + 1] [[5], [3], [7]] = Inr [[5], [3], [7]]"
  by (simp_all add: np_defs numeral_eq_Suc upt_rec)

lemma gen_symmetric_redefine: "gen_redefine_scale_param gen_symmetric [[5], [3], [7]] = Inr gen_symmetric"
  by (simp add: gen_redefine_scale_param_def np_defs upt_0_3)

lemma gen_symmetric_call: "gen_sigma_points gen_symmetric (PyScalar 5) (PScalar 4) = Inr (gen_symmetric, [[5], [3], [7]])"
proof -
  have P: "eye_times 1 4 = [[4]]" by (simp add: eye_times_def upt_0_1)
  have ne: "py_ne (NdArray [5]) (NdArray [5]) = Inr False"
    by (simp add: elementwise_ne_def broadcast_pairs_def array_truth_def)
  show ?thesis
    by (simp only: gen_sigma_points_def Let_def gen_symmetric_fields np_size.simps asarray_if_scalar.simps
          as_matrix.simps P ne gen_symmetric_points gen_symmetric_redefine gen_symmetric_weights bind_err_Inr bind_err_Inl
          simp_thms if_True if_False)
qed

lemma gen_symmetric_init_weights:
  "gen_compute_weights True
     \<lparr>gen_n = 1, gen_x = NdArray [5], gen_P = [[1]], gen_S = [0], gen_K = [1],
      gen_k = Some (1 / 2), gen_positively_constrained = True,
      gen_s = replicate (2 * 1 + 1) 0, gen_Wm = [], gen_Wc = []\<rparr> = Inr gen_symmetric"
  by (simp add: gen_compute_weights_def gen_symmetric_def Let_def np_defs upt_1_2 upt_0_1 numeral_eq_Suc)

lemma gen_symmetric_points_init:
  "gen_points_loop (NdArray [5]) [[1]] [0, 1, 1] 1 [1..<1 + 1] (zeros (2 * 1 + 1) 1) = Inr [[5], [4], [6]]"
  "gen_points_loop (NdArray [5]) [[1]] [0, 1, 1] 1 [1..<1 + 1] [[5], [4], [6]] = Inr [[5], [4], [6]]"
  by (simp_all add: np_defs numeral_eq_Suc upt_rec)

lemma gen_symmetric_redefine_init: "gen_redefine_scale_param gen_symmetric [[5], [4], [6]] = Inr gen_symmetric"
  by (simp add: gen_redefine_scale_param_def np_defs upt_0_3)

lemma py_ne_5: "py_ne (NdArray [5]) (NdArray [5]) = Inr False"
  by (simp add: elementwise_ne_def broadcast_pairs_def array_truth_def)

lemma eye_1: "eye_times 1 p = [[p]]"
  by (simp add: eye_times_def upt_0_1)

lemma length_1: "length [a] = 1"
  by simp

lemma gen_symmetric_call_init: "gen_sigma_points gen_symmetric (NdArray [5]) (PMat [[1]]) = Inr (gen_symmetric, [[5], [4], [6]])"
  by (simp only: gen_sigma_points_def Let_def gen_symmetric_fields np_size.simps asarray_if_scalar.simps
          as_matrix.simps py_ne_5 gen_symmetric_points_init gen_symmetric_redefine_init gen_symmetric_weights bind_err_Inr bind_err_Inl
          simp_thms if_True if_False length_1)

lemma gen_symmetric_init:
  "GeneralizedSigmaPoints_init 1 (PScalar 1) (MScalar 0) (MScalar 1) True (Some (1 / 2)) (PyScalar 5) = Inr gen_symmetric"
  by (simp only: GeneralizedSigmaPoints_init_def Let_def asarray_if_scalar.simps as_matrix.simps
        moment_vec.simps eye_1 gen_symmetric_init_weights gen_symmetric_call_init bind_err_Inr if_True case_prod_conv)

lemma gen_skewed_trial_fields:
  "gen_n gen_skewed_trial = 1" "gen_x gen_skewed_trial = NdArray [1]" "gen_s gen_skewed_trial = [0, 3, 1]"
  "gen_positively_constrained gen_skewed_trial"
  by (simp_all add: gen_skewed_trial_def)

lemma gen_skewed_fields:
  "gen_n gen_skewed = 1" "gen_x gen_skewed = NdArray [1]" "gen_s gen_skewed = [0, 1 / 2, - 3 / 2]"
  "gen_positively_constrained gen_skewed"
  by (simp_all add: gen_skewed_def)

lemma gen_skewed_trial_init_weights:
  "gen_compute_weights True
     \<lparr>gen_n = 1, gen_x = NdArray [1], gen_P = [[1]], gen_S = [- 2], gen_K = [7],
      gen_k = Some (1 / 2), gen_positively_constrained = True,
      gen_s = replicate (2 * 1 + 1) 0, gen_Wm = [], gen_Wc = []\<rparr> = Inr gen_skewed_trial"
  by (simp add: gen_compute_weights_def gen_skewed_trial_def Let_def np_defs upt_1_2 upt_0_1 numeral_eq_Suc sqrt_16)

lemma gen_skewed_trial_points:
  "gen_points_loop (NdArray [1]) [[1]] [0, 3, 1] 1 [1..<1 + 1] (zeros (2 * 1 + 1) 1)
     = Inr [[1], [- 2], [2]]"
  by (simp add: np_defs numeral_eq_Suc upt_rec)

lemma gen_skewed_trial_redefine:
  "gen_redefine_scale_param gen_skewed_trial [[1], [- 2], [2]] = Inr (gen_skewed_trial\<lparr>gen_s := [0, 1 / 2, 1]\<rparr>)"
  by (simp add: gen_redefine_scale_param_def gen_skewed_trial_def np_defs upt_0_3)

lemma gen_skewed_trial_reweigh: "gen_compute_weights False (gen_skewed_trial\<lparr>gen_s := [0, 1 / 2, 1]\<rparr>) = Inr gen_skewed"
  by (simp add: gen_compute_weights_def gen_skewed_trial_def gen_skewed_def Let_def np_defs upt_1_2 upt_0_1 numeral_eq_Suc)

lemma gen_skewed_points:
  "gen_points_loop (NdArray [1]) [[1]] [0, 1 / 2, - 3 / 2] 1 [1..<1 + 1] [[1], [- 2], [2]]
     = Inr [[1], [1 / 2], [- 1 / 2]]"
  "gen_points_loop (NdArray [1]) [[1]] [0, 1 / 2, - 3 / 2] 1 [1..<1 + 1] (zeros (2 * 1 + 1) 1)
     = Inr [[1], [1 / 2], [- 1 / 2]]"
  by (simp_all add: np_defs numeral_eq_Suc upt_rec)

lemma py_ne_1: "py_ne (NdArray [1]) (NdArray [1]) = Inr False"
  by (simp add: elementwise_ne_def broadcast_pairs_def array_truth_def)

lemma gen_skewed_trial_call:
  "gen_sigma_points gen_skewed_trial (NdArray [1]) (PMat [[1]]) = Inr (gen_skewed, [[1], [1 / 2], [- 1 / 2]])"
  by (simp only: gen_sigma_points_def Let_def gen_skewed_trial_fields gen_skewed_fields np_size.simps asarray_if_scalar.simps
          as_matrix.simps py_ne_1 gen_skewed_trial_points gen_skewed_trial_redefine gen_skewed_trial_reweigh gen_skewed_points
          bind_err_Inr bind_err_Inl simp_thms if_True if_False length_1)

lemma gen_skewed_init:
  "GeneralizedSigmaPoints_init 1 (PScalar 1) (MScalar (- 2)) (MScalar 7) True (Some (1 / 2)) (PyScalar 1)
     = Inr gen_skewed"
  by (simp only: GeneralizedSigmaPoints_init_def Let_def asarray_if_scalar.simps as_matrix.simps
        moment_vec.simps eye_1 gen_skewed_trial_init_weights gen_skewed_trial_call bind_err_Inr if_True case_prod_conv)

lemma gen_skewed_redefine:
  "gen_redefine_scale_param gen_skewed [[1], [1 / 2], [- 1 / 2]] = Inl IndexError"
  by (simp add: gen_redefine_scale_param_def gen_skewed_def np_defs upt_0_3)

lemma gen_skewed_call: "gen_sigma_points gen_skewed (PyScalar 1) (PScalar 1) = Inl IndexError"
  by (simp only: gen_sigma_points_def Let_def gen_skewed_fields np_size.simps asarray_if_scalar.simps
          as_matrix.simps eye_1 py_ne_1 gen_skewed_points gen_skewed_redefine
          bind_err_Inr bind_err_Inl simp_thms if_True if_False)

lemma gen_list_mean_fields:
  "gen_n gen_list_mean = 2" "gen_x gen_list_mean = PyList [1, 2]" "gen_s gen_list_mean = [0, 1, 1, 1, 1]"
  "gen_positively_constrained gen_list_mean = False"
  by (simp_all add: gen_list_mean_def)

lemma upt_1_3: "[1..<3] = [1, 2]" by (simp add: upt_rec)
lemma upt_0_2: "[0..<2] = [0, 1]" by (simp add: upt_rec)

lemma gen_list_mean_init_weights:
  "gen_compute_weights True
     \<lparr>gen_n = 2, gen_x = PyList [1, 2], gen_P = [[1, 0], [0, 1]], gen_S = [0, 0], gen_K = [1, 1],
      gen_k = None, gen_positively_constrained = False,
      gen_s = replicate (2 * 2 + 1) 0, gen_Wm = [], gen_Wc = []\<rparr> = Inr gen_list_mean"
  by (simp add: gen_compute_weights_def gen_list_mean_def Let_def np_defs upt_1_3 upt_0_2 numeral_eq_Suc)

lemma gen_list_mean_init:
  "GeneralizedSigmaPoints_init 2 (PMat [[1, 0], [0, 1]]) (MVec [0, 0]) (MVec [1, 1]) False None
     (PyList [1, 2]) = Inr gen_list_mean"
  by (simp only: GeneralizedSigmaPoints_init_def Let_def asarray_if_scalar.simps as_matrix.simps
        moment_vec.simps gen_list_mean_init_weights bind_err_Inr if_False)

lemma gen_list_mean_points:
  "gen_points_loop (PyList [1, 2]) [[1, 0], [0, 1]] [0, 1, 1, 1, 1] 2 [1..<2 + 1] (zeros (2 * 2 + 1) 2)
     = Inr [[1, 2], [0, 2], [1, 1], [2, 2], [1, 3]]"
  by (simp add: np_defs numeral_eq_Suc upt_rec)

lemma gen_list_mean_call:
  "gen_sigma_points gen_list_mean (PyList [1, 2]) (PMat [[1, 0], [0, 1]])
     = Inr (gen_list_mean, [[1, 2], [0, 2], [1, 1], [2, 2], [1, 3]])"
proof -
  have l2: "length [1, 2 :: real] = 2" by simp
  show ?thesis
    by (simp only: gen_sigma_points_def Let_def gen_list_mean_fields np_size.simps asarray_if_scalar.simps
          as_matrix.simps py_ne.simps gen_list_mean_points l2
          bind_err_Inr bind_err_Inl simp_thms if_True if_False)
qed

lemma gen_negative_mean_redefine:
  "gen_redefine_scale_param gen_negative_mean [[- 4, - 4], [0, 0], [0, 0], [0, 0], [0, 0]]
     = Inr (gen_negative_mean\<lparr>gen_s := [- 2, 0, 0, 0, 0]\<rparr>)"
  by (simp add: gen_redefine_scale_param_def gen_negative_mean_def np_defs upt_rec numeral_eq_Suc sqrt_16)

lemma array_truth_long:
  assumes "length bs \<noteq> 1"
  shows "array_truth bs = Inl ValueError"
proof (cases bs)
  case Nil
  then show ?thesis by (simp add: array_truth_def)
next
  case (Cons b bs')
  with assms have "bs' \<noteq> []" by auto
  then obtain c cs where "bs' = c # cs" by (cases bs') auto
  with Cons show ?thesis by (simp add: array_truth_def)
qed

lemma elementwise_ne_long:
  assumes "2 \<le> length a"
  shows "elementwise_ne a b = Inl ValueError"
proof -
  consider (eq) "length a = length b"
    | (one) "length a \<noteq> length b" "length b = 1"
    | (bad) "length a \<noteq> length b" "length b \<noteq> 1"
    by blast
  then show ?thesis
  proof cases
    case eq
    then have "broadcast_pairs a b = Inr (zip a b)" by (simp add: broadcast_pairs_def)
    moreover have "length (map (\<lambda>(u, v). u \<noteq> v) (zip a b)) \<noteq> 1" using eq assms by simp
    ultimately show ?thesis by (simp add: elementwise_ne_def array_truth_long)
  next
    case one
    then have "broadcast_pairs a b = Inr (map (\<lambda>u. (u, hd b)) a)"
      using assms by (simp add: broadcast_pairs_def)
    moreover have "length (map (\<lambda>(u, v). u \<noteq> v) (map (\<lambda>u. (u, hd b)) a)) \<noteq> 1" using assms by simp
    ultimately show ?thesis by (simp add: elementwise_ne_def array_truth_long)
  next
    case bad
    then have "broadcast_pairs a b = Inl ValueError"
      using assms by (simp add: broadcast_pairs_def)
    then show ?thesis by (simp add: elementwise_ne_def)
  qed
qed

lemma py_ne_array:
  assumes "2 \<le> length a"
  shows "py_ne (NdArray a) y = Inl ValueError"
  using assms by (cases y) (simp_all add: array_truth_long elementwise_ne_long)

lemma gen_sigma_points_array:
  assumes "2 \<le> gen_n g"
  shows "gen_sigma_points g (NdArray a) P = Inl ValueError"
proof (cases "gen_n g = length a")
  case True
  with assms have "py_ne (NdArray a) (gen_x g) = Inl ValueError" by (simp add: py_ne_array)
  then show ?thesis by (simp add: gen_sigma_points_def Let_def)
next
  case False
  then show ?thesis by (simp add: gen_sigma_points_def)
qed

lemma sqrt_9: "sqrt 9 = 3"
proof -
  have "sqrt (3\<^sup>2) = 3" by simp
  then show ?thesis by simp
qed

lemma chol_9I: "cholesky [[9, 0], [0, 9]] = Inr [[3, 0], [0, 3]]"
  by (simp add: cholesky_def chol_row_def upt_rec numeral_2_eq_2 sqrt_9)

lemma as_matrix_explicit:
  "as_matrix n P = (case P of PScalar p \<Rightarrow> map (\<lambda>i. map (\<lambda>j. if i = j then p else 0) [0..<n]) [0..<n]
                             | PMat M \<Rightarrow> M)"
  by (cases P) (simp_all add: eye_times_def)

lemma gen_sequence_vs_array:
  assumes n: "2 \<le> gen_n g" and x: "x = PyList a \<or> x = PyTuple a" and sx: "gen_x g = NdArray b"
  shows "gen_sigma_points g x P = Inl ValueError"
proof (cases "gen_n g = np_size x")
  case False
  then show ?thesis by (simp add: gen_sigma_points_def)
next
  case True
  with n x have la: "2 \<le> length a" by auto
  then have "py_ne x (gen_x g) = Inl ValueError"
    using x sx by (auto simp add: elementwise_ne_long)
  moreover have "asarray_if_scalar x = x" using x by auto
  ultimately show ?thesis using True by (simp add: gen_sigma_points_def Let_def)
qed

lemma gen_sequence_differs:
  assumes la: "length a = gen_n g" and x: "x = PyList a \<or> x = PyTuple a"
    and sx: "gen_x g = PyNone \<or> ((gen_x g = PyList b \<or> gen_x g = PyTuple b) \<and> gen_x g \<noteq> x)"
  shows "gen_sigma_points g x P = Inl Warning"
proof -
  have size: "gen_n g = np_size x" using la x by auto
  have conv: "asarray_if_scalar x = x" using x by auto
  have "py_ne x (gen_x g) = Inr True" using x sx by auto
  then show ?thesis using size conv by (simp add: gen_sigma_points_def Let_def)
qed

lemma gen_sequence_same:
  assumes la: "length a = gen_n g" and x: "x = PyList a \<or> x = PyTuple a" and sx: "gen_x g = x"
  shows "gen_sigma_points g x P
     = bind_err (gen_points_loop x (as_matrix (gen_n g) P) (gen_s g) (gen_n g) [1..<gen_n g + 1]
                   (zeros (2 * gen_n g + 1) (gen_n g))) (\<lambda>sigmas.
         if gen_positively_constrained g
         then bind_err (gen_redefine_scale_param g sigmas) (\<lambda>self.
              bind_err (gen_compute_weights False self) (\<lambda>self.
              bind_err (gen_points_loop x (as_matrix (gen_n g) P) (gen_s self) (gen_n g)
                          [1..<gen_n g + 1] sigmas) (\<lambda>sigmas.
              Inr (self, sigmas))))
         else Inr (g, sigmas))"
proof -
  have size: "gen_n g = np_size x" using la x by auto
  have conv: "asarray_if_scalar x = x" using x by auto
  have "py_ne x (gen_x g) = Inr False" using x sx by auto
  then show ?thesis using size conv by (simp add: gen_sigma_points_def Let_def)
qed

lemma gen_tuple_mean_fields:
  "gen_n gen_tuple_mean = 2" "gen_x gen_tuple_mean = PyTuple [1, 2]"
  "gen_s gen_tuple_mean = [0, 1, 1, 1, 1]" "gen_positively_constrained gen_tuple_mean = False"
  by (simp_all add: gen_tuple_mean_def)

lemma gen_tuple_mean_init_weights:
  "gen_compute_weights True
     \<lparr>gen_n = 2, gen_x = PyTuple [1, 2], gen_P = [[1, 0], [0, 1]], gen_S = [0, 0], gen_K = [1, 1],
      gen_k = None, gen_positively_constrained = False,
      gen_s = replicate (2 * 2 + 1) 0, gen_Wm = [], gen_Wc = []\<rparr> = Inr gen_tuple_mean"
  by (simp add: gen_compute_weights_def gen_tuple_mean_def Let_def np_defs upt_1_3 upt_0_2 numeral_eq_Suc)

lemma gen_tuple_mean_init:
  "GeneralizedSigmaPoints_init 2 (PMat [[1, 0], [0, 1]]) (MVec [0, 0]) (MVec [1, 1]) False None
     (PyTuple [1, 2]) = Inr gen_tuple_mean"
  by (simp only: GeneralizedSigmaPoints_init_def Let_def asarray_if_scalar.simps as_matrix.simps
        moment_vec.simps gen_tuple_mean_init_weights bind_err_Inr if_False)

lemma gen_tuple_mean_points:
  "gen_points_loop (PyTuple [1, 2]) (as_matrix 2 (PMat [[1, 0], [0, 1]])) [0, 1, 1, 1, 1] 2 [1..<2 + 1]
     (zeros (2 * 2 + 1) 2)
     = Inr [[1, 2], [0, 2], [1, 1], [2, 2], [1, 3]]"
  by (simp add: np_defs numeral_eq_Suc upt_rec)

lemma gen_compute_weights_n:
  assumes "gen_compute_weights free g = Inr g'"
  shows "gen_n g' = gen_n g"
  using assms
  by (auto simp add: gen_compute_weights_def Let_def bind_err_Inr_iff)

lemma gen_init_array:
  assumes "2 \<le> n"
  shows "GeneralizedSigmaPoints_init n P S K True k (NdArray a)
     = bind_err (gen_compute_weights True
          \<lparr>gen_n = n, gen_x = NdArray a, gen_P = as_matrix n P, gen_S = moment_vec S,
           gen_K = moment_vec K, gen_k = k, gen_positively_constrained = True,
           gen_s = replicate (2 * n + 1) 0, gen_Wm = [], gen_Wc = []\<rparr>)
         (\<lambda>self. Inl ValueError)"
proof -
  let ?g0 = "\<lparr>gen_n = n, gen_x = NdArray a, gen_P = as_matrix n P, gen_S = moment_vec S,
           gen_K = moment_vec K, gen_k = k, gen_positively_constrained = True,
           gen_s = replicate (2 * n + 1) 0, gen_Wm = [], gen_Wc = []\<rparr>"
  show ?thesis
  proof (cases "gen_compute_weights True ?g0")
    case (Inl e)
    then show ?thesis by (simp add: GeneralizedSigmaPoints_init_def Let_def)
  next
    case (Inr g1)
    from gen_compute_weights_n[OF Inr] assms have "2 \<le> gen_n g1" by simp
    then have "gen_sigma_points g1 (NdArray a) (PMat (as_matrix n P)) = Inl ValueError"
      by (rule gen_sigma_points_array)
    with Inr show ?thesis by (simp add: GeneralizedSigmaPoints_init_def Let_def)
  qed
qed

lemma np_min_Min:
  assumes "v \<noteq> []"
  shows "np_min v = Inr (Min (set v))"
proof -
  from assms obtain a as where v: "v = a # as" by (cases v) auto
  show ?thesis unfolding v by (simp only: np_min_def list.case Min.set_eq_fold)
qed

lemma np_min_negative:
  assumes "\<exists>a\<in>set v. a < 0"
  shows "\<exists>m. np_min v = Inr m \<and> m < 0"
proof -
  from assms have ne: "v \<noteq> []" by auto
  from assms have "Min (set v) < 0" using ne by (simp add: Min_less_iff)
  with np_min_Min[OF ne] show ?thesis by simp
qed

lemma np_min_nonnegative:
  assumes "v \<noteq> []" "\<forall>a\<in>set v. 0 \<le> a"
  shows "\<exists>m. np_min v = Inr m \<and> \<not> m < 0"
proof -
  from assms have "0 \<le> Min (set v)" by simp
  with np_min_Min[OF assms(1)] show ?thesis by simp
qed

lemma ncols_map: "ncols (map (map f) M) = ncols M"
  by (cases M) (simp_all add: ncols_def)

lemma col_at_beyond:
  assumes "ncols M < i"
  shows "col_at M (int i - 1) = Inl IndexError"
  using assms by (simp add: col_at_def Let_def)

lemma redefine_row_beyond:
  assumes i: "i < length sigmas" and c: "ncols (gen_P g) < i" and neg: "\<exists>a\<in>set (sigmas ! i). a < 0"
  shows "redefine_rows g sigmas (i # is) = Inl IndexError \<or> redefine_rows g sigmas (i # is) = Inl NotFinite"
proof -
  from np_min_negative[OF neg] obtain m where m: "np_min (sigmas ! i) = Inr m" "m < 0" by blast
  have r: "row_at sigmas i = Inr (sigmas ! i)" using i by (simp add: row_at_def)
  show ?thesis
  proof (cases "np_sqrt_mat (gen_P g)")
    case (Inl e)
    then have "e = NotFinite" by (simp add: np_sqrt_mat_def split: if_splits)
    with Inl show ?thesis using r m by simp
  next
    case (Inr rP)
    then have "rP = map (map sqrt) (gen_P g)" by (simp add: np_sqrt_mat_def split: if_splits)
    then have "ncols rP < i" using c by (simp add: ncols_map)
    then have "col_at rP (int i - 1) = Inl IndexError" by (rule col_at_beyond)
    with Inr show ?thesis using r m by simp
  qed
qed

lemma redefine_row_step:
  "(\<exists>e. redefine_rows g sigmas (j # is) = Inl e)
   \<or> (\<exists>s. redefine_rows g sigmas (j # is) = redefine_rows (g\<lparr>gen_s := s\<rparr>) sigmas is)"
proof (cases "row_at sigmas j")
  case (Inl e)
  then show ?thesis by simp
next
  case row: (Inr row)
  show ?thesis
  proof (cases "np_min row")
    case (Inl e)
    with row show ?thesis by simp
  next
    case m: (Inr m)
    show ?thesis
    proof (cases "m < 0")
      case False
      have "redefine_rows g sigmas (j # is) = redefine_rows (g\<lparr>gen_s := gen_s g\<rparr>) sigmas is"
        using row m False by simp
      then show ?thesis by blast
    next
      case True
      show ?thesis
        using row m True
        by (cases "np_sqrt_mat (gen_P g)"; cases "entries (gen_x g)"; cases "gen_k g";
            simp add: bind_err_def split: sum.splits) blast+
    qed
  qed
qed

lemma redefine_rows_never_completes:
  assumes "i \<in> set is" "i < length sigmas" "ncols (gen_P g) < i" "\<exists>a\<in>set (sigmas ! i). a < 0"
  shows "\<exists>e. redefine_rows g sigmas is = Inl e"
  using assms
proof (induction "is" arbitrary: g)
  case Nil
  then show ?case by simp
next
  case (Cons j "is")
  show ?case
  proof (cases "j = i")
    case True
    with redefine_row_beyond[OF Cons.prems(2,3,4), of "is"] show ?thesis by auto
  next
    case False
    with Cons.prems have mem: "i \<in> set is" by simp
    from redefine_row_step[of g sigmas j "is"] show ?thesis
    proof
      assume "\<exists>e. redefine_rows g sigmas (j # is) = Inl e"
      then show ?thesis .
    next
      assume "\<exists>s. redefine_rows g sigmas (j # is) = redefine_rows (g\<lparr>gen_s := s\<rparr>) sigmas is"
      then obtain s where s: "redefine_rows g sigmas (j # is) = redefine_rows (g\<lparr>gen_s := s\<rparr>) sigmas is" ..
      have "ncols (gen_P (g\<lparr>gen_s := s\<rparr>)) < i" using Cons.prems(3) by simp
      from Cons.IH[OF mem Cons.prems(2) this Cons.prems(4)] s show ?thesis by simp
    qed
  qed
qed

lemma redefine_rows_skip:
  assumes "\<forall>j\<in>set js. j < length sigmas \<and> sigmas ! j \<noteq> [] \<and> (\<forall>a\<in>set (sigmas ! j). 0 \<le> a)"
  shows "redefine_rows g sigmas (js @ ks) = redefine_rows g sigmas ks"
  using assms
proof (induction js)
  case Nil
  then show ?case by simp
next
  case (Cons j js)
  then have j: "j < length sigmas" "sigmas ! j \<noteq> []" "\<forall>a\<in>set (sigmas ! j). 0 \<le> a" by simp_all
  from np_min_nonnegative[OF j(2,3)] obtain m where m: "np_min (sigmas ! j) = Inr m" "\<not> m < 0" by blast
  have "redefine_rows g sigmas ((j # js) @ ks) = redefine_rows g sigmas (js @ ks)"
    using j(1) m by (simp add: row_at_def)
  with Cons show ?case by simp
qed

lemma redefine_index_error:
  assumes i: "i < length sigmas" and c: "ncols (gen_P g) < i" and neg: "\<exists>a\<in>set (sigmas ! i). a < 0"
    and before: "\<forall>j<i. sigmas ! j \<noteq> [] \<and> (\<forall>a\<in>set (sigmas ! j). 0 \<le> a)"
    and P: "\<forall>r\<in>set (gen_P g). \<forall>a\<in>set r. 0 \<le> a"
  shows "gen_redefine_scale_param g sigmas = Inl IndexError"
proof -
  have split: "[0..<length sigmas] = [0..<i] @ (i # [Suc i..<length sigmas])"
    using i by (metis le_add1 less_imp_add_positive upt_add_eq_append upt_conv_Cons zero_le add.commute
        less_or_eq_imp_le plus_nat.add_0)
  have skip: "\<forall>j\<in>set [0..<i]. j < length sigmas \<and> sigmas ! j \<noteq> [] \<and> (\<forall>a\<in>set (sigmas ! j). 0 \<le> a)"
    using before i by simp
  have sq: "np_sqrt_mat (gen_P g) \<noteq> Inl NotFinite"
    using P by (auto simp add: np_sqrt_mat_def not_less)
  have "gen_redefine_scale_param g sigmas = redefine_rows g sigmas (i # [Suc i..<length sigmas])"
    unfolding gen_redefine_scale_param_def split by (rule redefine_rows_skip[OF skip])
  moreover have "redefine_rows g sigmas (i # [Suc i..<length sigmas]) \<noteq> Inl NotFinite"
  proof -
    from np_min_negative[OF neg] obtain m where m: "np_min (sigmas ! i) = Inr m" "m < 0" by blast
    from P have "np_sqrt_mat (gen_P g) = Inr (map (map sqrt) (gen_P g))"
      by (auto simp add: np_sqrt_mat_def not_less)
    moreover have "col_at (map (map sqrt) (gen_P g)) (int i - 1) = Inl IndexError"
      using c by (simp add: col_at_beyond ncols_map)
    ultimately show ?thesis using i m by (simp add: row_at_def)
  qed
  ultimately show ?thesis using redefine_row_beyond[OF i c neg, of "[Suc i..<length sigmas]"] by auto
qed

lemma dimension_mismatch_aux:
  "np_size x \<noteq> merwe_n m \<Longrightarrow> merwe_sigma_points m x P = Inl ValueError"
  "np_size x \<noteq> julier_n j \<Longrightarrow> julier_sigma_points j x P = Inl ValueError"
  "np_size x \<noteq> simplex_n s \<Longrightarrow> simplex_sigma_points s x P = Inl ValueError"
  "np_size x \<noteq> gen_n g \<Longrightarrow> gen_sigma_points g x P = Inl ValueError"
  by (auto simp add: merwe_sigma_points_def julier_sigma_points_def simplex_sigma_points_def
      gen_sigma_points_def)

lemma chol_2I: "cholesky [[2, 0], [0, 2]] = Inr [[sqrt 2, 0], [0, sqrt 2]]"
  by (simp add: cholesky_def chol_row_def upt_rec numeral_2_eq_2)

lemma julier_n2_init:
  "JulierSigmaPoints_init 2 0 None None
     = Inr \<lparr>julier_n = 2, julier_kappa = 0, julier_sqrt = cholesky, julier_subtract = np_subtract,
            julier_Wm = [0, 1 / 4, 1 / 4, 1 / 4, 1 / 4], julier_Wc = [0, 1 / 4, 1 / 4, 1 / 4, 1 / 4]\<rparr>"
  by (simp add: JulierSigmaPoints_init_def julier_compute_weights_def Let_def numeral_eq_Suc)

lemma julier_n2_points:
  "julier_sigma_points
     \<lparr>julier_n = 2, julier_kappa = 0, julier_sqrt = cholesky, julier_subtract = np_subtract,
      julier_Wm = [0, 1 / 4, 1 / 4, 1 / 4, 1 / 4], julier_Wc = [0, 1 / 4, 1 / 4, 1 / 4, 1 / 4]\<rparr>
     (PyList [0, 0]) (PMat [[1, 0], [0, 1]])
   = Inr [[0, 0], [sqrt 2, 0], [0, sqrt 2], [- sqrt 2, 0], [0, - sqrt 2]]"
  by (simp add: julier_sigma_points_def Let_def scale_def chol_2I zeros_def set_row_def
      upt_rec[of 0 2] upt_rec[of 1 2] row_at_def np_subtract_def broadcast2_def broadcast_pairs_def
      numeral_eq_Suc)

lemma gen_symmetric_other_mean:
  "gen_sigma_points gen_symmetric (PyScalar 6) (PScalar 1) = Inl Warning"
proof -
  have ne: "py_ne (NdArray [6]) (NdArray [5]) = Inr True"
    by (simp add: elementwise_ne_def broadcast_pairs_def array_truth_def)
  show ?thesis
    by (simp only: gen_sigma_points_def Let_def gen_symmetric_fields np_size.simps
        asarray_if_scalar.simps ne bind_err_Inr simp_thms if_True if_False)
qed

lemma gen_array_mean_weights:
  "gen_compute_weights True
     \<lparr>gen_n = 2, gen_x = NdArray [1, 2], gen_P = as_matrix 2 (PMat [[1, 0], [0, 1]]),
      gen_S = moment_vec (MVec [0, 0]), gen_K = moment_vec (MVec [1, 1]),
      gen_k = Some 1, gen_positively_constrained = True,
      gen_s = replicate (2 * 2 + 1) 0, gen_Wm = [], gen_Wc = []\<rparr> = Inr gen_array_mean"
  by (simp add: gen_compute_weights_def gen_array_mean_def Let_def np_defs upt_1_3 upt_0_2 numeral_eq_Suc)

lemma sqrt_49: "sqrt 49 = 7"
proof -
  have "sqrt (7\<^sup>2) = 7" by simp
  then show ?thesis by simp
qed

lemma sqrt_144: "sqrt 144 = 12"
proof -
  have "sqrt (12\<^sup>2) = 12" by simp
  then show ?thesis by simp
qed

lemma sqrt_quarter: "sqrt (1 / 4) = 1 / 2"
  by (simp add: real_sqrt_divide)

lemma gen_correlated_trial_weights:
  "gen_compute_weights True
     \<lparr>gen_n = 2, gen_x = PyList [10, 1 / 10], gen_P = [[1, 1 / 4], [1 / 4, 1]],
      gen_S = [- 5, 10], gen_K = [31, 111], gen_k = Some (1 / 2),
      gen_positively_constrained = True,
      gen_s = replicate (2 * 2 + 1) 0, gen_Wm = [], gen_Wc = []\<rparr> = Inr gen_correlated_trial"
  by (simp add: gen_compute_weights_def gen_correlated_trial_def Let_def np_defs upt_1_3 upt_0_2
      numeral_eq_Suc sqrt_49 sqrt_144)

lemma gen_correlated_trial_points:
  "gen_points_loop (PyList [10, 1 / 10]) [[1, 1 / 4], [1 / 4, 1]] [0, 6, 1, 1, 11] 2 [1..<2 + 1]
     (zeros (2 * 2 + 1) 2)
   = Inr [[10, 1 / 10], [4, - 29 / 10], [19 / 2, - 9 / 10], [11, 3 / 5], [31 / 2, 111 / 10]]"
  by (simp add: np_defs numeral_eq_Suc upt_rec sqrt_quarter)

lemma gen_correlated_trial_redefine:
  "gen_redefine_scale_param gen_correlated_trial
     [[10, 1 / 10], [4, - 29 / 10], [19 / 2, - 9 / 10], [11, 3 / 5], [31 / 2, 111 / 10]]
   = Inr (gen_correlated_trial\<lparr>gen_s := [0, 1 / 10, 1 / 20, 1, 11]\<rparr>)"
  by (simp add: gen_redefine_scale_param_def gen_correlated_trial_def np_defs upt_rec numeral_eq_Suc
      sqrt_quarter)

lemma gen_correlated_trial_fields:
  "gen_n gen_correlated_trial = 2" "gen_x gen_correlated_trial = PyList [10, 1 / 10]"
  "gen_s gen_correlated_trial = [0, 6, 1, 1, 11]" "gen_positively_constrained gen_correlated_trial"
  by (simp_all add: gen_correlated_trial_def)

lemma gen_correlated_fields:
  "gen_n gen_correlated = 2" "gen_x gen_correlated = PyList [10, 1 / 10]"
  "gen_s gen_correlated = [0, 1 / 10, 1 / 20, - 49 / 10, 201 / 20]"
  "gen_positively_constrained gen_correlated"
  by (simp_all add: gen_correlated_def)

lemma gen_correlated_reweigh:
  "gen_compute_weights False (gen_correlated_trial\<lparr>gen_s := [0, 1 / 10, 1 / 20, 1, 11]\<rparr>)
     = Inr gen_correlated"
  by (simp add: gen_compute_weights_def gen_correlated_trial_def gen_correlated_def Let_def np_defs
      upt_1_3 upt_0_2 numeral_eq_Suc)

lemma gen_correlated_points:
  "gen_points_loop (PyList [10, 1 / 10]) [[1, 1 / 4], [1 / 4, 1]] [0, 1 / 10, 1 / 20, - 49 / 10, 201 / 20]
     2 [1..<2 + 1]
     [[10, 1 / 10], [4, - 29 / 10], [19 / 2, - 9 / 10], [11, 3 / 5], [31 / 2, 111 / 10]]
   = Inr [[10, 1 / 10], [99 / 10, 1 / 20], [399 / 40, 1 / 20], [51 / 10, - 47 / 20], [601 / 40, 203 / 20]]"
  "gen_points_loop (PyList [10, 1 / 10]) [[1, 1 / 4], [1 / 4, 1]] [0, 1 / 10, 1 / 20, - 49 / 10, 201 / 20]
     2 [1..<2 + 1] (zeros (2 * 2 + 1) 2)
   = Inr [[10, 1 / 10], [99 / 10, 1 / 20], [399 / 40, 1 / 20], [51 / 10, - 47 / 20], [601 / 40, 203 / 20]]"
  by (simp_all add: np_defs numeral_eq_Suc upt_rec sqrt_quarter)

lemma length_2: "length [a, b] = 2"
  by simp

lemma gen_correlated_trial_call:
  "gen_sigma_points gen_correlated_trial (PyList [10, 1 / 10]) (PMat [[1, 1 / 4], [1 / 4, 1]])
   = Inr (gen_correlated,
          [[10, 1 / 10], [99 / 10, 1 / 20], [399 / 40, 1 / 20], [51 / 10, - 47 / 20], [601 / 40, 203 / 20]])"
  by (simp only: gen_sigma_points_def Let_def gen_correlated_trial_fields gen_correlated_fields
        np_size.simps asarray_if_scalar.simps as_matrix.simps py_ne.simps length_2
        gen_correlated_trial_points gen_correlated_trial_redefine gen_correlated_reweigh
        gen_correlated_points bind_err_Inr bind_err_Inl simp_thms if_True if_False)

lemma gen_correlated_init:
  "GeneralizedSigmaPoints_init 2 (PMat [[1, 1 / 4], [1 / 4, 1]]) (MVec [- 5, 10]) (MVec [31, 111])
     True (Some (1 / 2)) (PyList [10, 1 / 10]) = Inr gen_correlated"
  by (simp only: GeneralizedSigmaPoints_init_def Let_def asarray_if_scalar.simps as_matrix.simps
        moment_vec.simps gen_correlated_trial_weights gen_correlated_trial_call bind_err_Inr if_True
        case_prod_conv)

lemma gen_correlated_redefine:
  "gen_redefine_scale_param gen_correlated
     [[10, 1 / 10], [99 / 10, 1 / 20], [399 / 40, 1 / 20], [51 / 10, - 47 / 20], [601 / 40, 203 / 20]]
   = Inl IndexError"
  by (simp add: gen_redefine_scale_param_def gen_correlated_def np_defs upt_rec numeral_eq_Suc
      sqrt_quarter)

lemma gen_correlated_call:
  "gen_sigma_points gen_correlated (PyList [10, 1 / 10]) (PMat [[1, 1 / 4], [1 / 4, 1]])
   = Inl IndexError"
  by (simp only: gen_sigma_points_def Let_def gen_correlated_fields
        np_size.simps asarray_if_scalar.simps as_matrix.simps py_ne.simps length_2
        gen_correlated_redefine gen_correlated_points bind_err_Inr bind_err_Inl simp_thms if_True if_False)

subsection \<open>MerweScaledSigmaPoints: weights, points and the unscented round trip\<close>

text \<open>
  Claim C3. With \<open>lambda = alpha\<^sup>2 (n + kappa) - n\<close> written out: whenever \<open>n + lambda\<close> is
  not zero, the constructor of MerweScaledSigmaPoints succeeds and leaves two weight
  vectors of length \<open>2n + 1\<close> with \<open>Wm[0] = lambda / (n + lambda)\<close>,
  \<open>Wc[0] = lambda / (n + lambda) + (1 - alpha\<^sup>2 + beta)\<close> and
  \<open>Wm[i] = Wc[i] = 0.5 / (n + lambda)\<close> for every \<open>i \<ge> 1\<close>. The example has \<open>n = 3\<close>,
  \<open>alpha = 1/2\<close>, \<open>beta = 0\<close>, \<open>kappa = 1\<close>, so \<open>lambda = -2\<close>.
\<close>

theorem merwe_weights:
  assumes "real n + (alpha\<^sup>2 * (real n + kappa) - real n) \<noteq> 0"
  shows "\<exists>g. MerweScaledSigmaPoints_init n alpha beta kappa sq sub = Inr g
     \<and> length (merwe_Wm g) = 2 * n + 1 \<and> length (merwe_Wc g) = 2 * n + 1
     \<and> merwe_Wm g ! 0 = (alpha\<^sup>2 * (real n + kappa) - real n)
                          / (real n + (alpha\<^sup>2 * (real n + kappa) - real n))
     \<and> merwe_Wc g ! 0 = (alpha\<^sup>2 * (real n + kappa) - real n)
                          / (real n + (alpha\<^sup>2 * (real n + kappa) - real n))
                          + (1 - alpha\<^sup>2 + beta)
     \<and> (\<forall>i. 1 \<le> i \<and> i < 2 * n + 1 \<longrightarrow>
            merwe_Wm g ! i = 0.5 / (real n + (alpha\<^sup>2 * (real n + kappa) - real n))
          \<and> merwe_Wc g ! i = 0.5 / (real n + (alpha\<^sup>2 * (real n + kappa) - real n)))"
proof -
  let ?l = "alpha\<^sup>2 * (real n + kappa) - real n"
  have l: "merwe_lambda n alpha kappa = ?l" by (simp add: merwe_lambda_def)
  have nz: "real n + merwe_lambda n alpha kappa \<noteq> 0" using assms unfolding l .
  from merwe_init_aux[OF nz, of beta sq sub]
  obtain g where g: "MerweScaledSigmaPoints_init n alpha beta kappa sq sub = Inr g"
    "merwe_Wm g = (replicate (2 * n + 1) (0.5 / (real n + ?l)))[0 := ?l / (real n + ?l)]"
    "merwe_Wc g = (replicate (2 * n + 1) (0.5 / (real n + ?l)))
           [0 := ?l / (real n + ?l) + (1 - alpha\<^sup>2 + beta)]"
    unfolding l by blast
  have "\<forall>i. 1 \<le> i \<and> i < 2 * n + 1 \<longrightarrow>
            merwe_Wm g ! i = 0.5 / (real n + ?l) \<and> merwe_Wc g ! i = 0.5 / (real n + ?l)"
    by (auto simp add: g nth_list_update)
  moreover have "merwe_Wm g ! 0 = ?l / (real n + ?l)"
    by (simp add: g)
  moreover have "merwe_Wc g ! 0 = ?l / (real n + ?l) + (1 - alpha\<^sup>2 + beta)"
    by (simp add: g)
  moreover have "length (merwe_Wm g) = 2 * n + 1" "length (merwe_Wc g) = 2 * n + 1"
    by (simp_all add: g)
  ultimately show ?thesis using g(1) by blast
qed

theorem merwe_weights_witness:
  "\<exists>g. MerweScaledSigmaPoints_init 3 (1 / 2) 0 1 None None = Inr g
        \<and> length (merwe_Wm g) = 7 \<and> length (merwe_Wc g) = 7
        \<and> merwe_Wm g ! 0 = - 2 \<and> merwe_Wc g ! 0 = - 5 / 4
        \<and> merwe_Wm g ! 1 = 1 / 2 \<and> merwe_Wc g ! 1 = 1 / 2
        \<and> merwe_Wm g ! 6 = 1 / 2 \<and> merwe_Wc g ! 6 = 1 / 2"
proof -
  have v: "(1 / 2 :: real)\<^sup>2 * (real 3 + 1) - real 3 = - 2" by (simp add: power2_eq_square)
  have h: "real 3 + ((1 / 2)\<^sup>2 * (real 3 + 1) - real 3) \<noteq> 0" unfolding v by simp
  from merwe_weights[OF h, of 0 None None]
  obtain g where g: "MerweScaledSigmaPoints_init 3 (1 / 2) 0 1 None None = Inr g"
    "length (merwe_Wm g) = 2 * 3 + 1" "length (merwe_Wc g) = 2 * 3 + 1"
    "merwe_Wm g ! 0 = ((1 / 2)\<^sup>2 * (real 3 + 1) - real 3)
                          / (real 3 + ((1 / 2)\<^sup>2 * (real 3 + 1) - real 3))"
    "merwe_Wc g ! 0 = ((1 / 2)\<^sup>2 * (real 3 + 1) - real 3)
                          / (real 3 + ((1 / 2)\<^sup>2 * (real 3 + 1) - real 3))
                          + (1 - (1 / 2)\<^sup>2 + 0)"
    "\<forall>i. 1 \<le> i \<and> i < 2 * 3 + 1 \<longrightarrow>
            merwe_Wm g ! i = 0.5 / (real 3 + ((1 / 2)\<^sup>2 * (real 3 + 1) - real 3))
          \<and> merwe_Wc g ! i = 0.5 / (real 3 + ((1 / 2)\<^sup>2 * (real 3 + 1) - real 3))"
    by blast
  have l7: "length (merwe_Wm g) = 7" "length (merwe_Wc g) = 7" using g(2,3) by simp_all
  have w0: "merwe_Wm g ! 0 = - 2" using g(4) unfolding v by simp
  have c0: "merwe_Wc g ! 0 = - 5 / 4" using g(5) unfolding v by (simp add: power2_eq_square)
  have r: "merwe_Wm g ! i = 1 / 2 \<and> merwe_Wc g ! i = 1 / 2" if "1 \<le> i" "i < 7" for i
  proof -
    from g(6) that have "merwe_Wm g ! i = 0.5 / (real 3 + ((1 / 2)\<^sup>2 * (real 3 + 1) - real 3))
          \<and> merwe_Wc g ! i = 0.5 / (real 3 + ((1 / 2)\<^sup>2 * (real 3 + 1) - real 3))" by simp
    then show ?thesis unfolding v by simp
  qed
  from r[of 1] r[of 6] have "merwe_Wm g ! 1 = 1 / 2" "merwe_Wc g ! 1 = 1 / 2"
    "merwe_Wm g ! 6 = 1 / 2" "merwe_Wc g ! 6 = 1 / 2" by simp_all
  then show ?thesis using g(1) l7 w0 c0 by blast
qed

text \<open>
  Claim C4. For a mean of \<open>n\<close> entries and a covariance \<open>P\<close>, let \<open>Pm\<close> be \<open>P\<close> itself, or
  for a scalar \<open>P\<close> the \<open>n\<close> by \<open>n\<close> array with \<open>P\<close> on the diagonal and \<open>0\<close> elsewhere
  (\<open>eye(n) * P\<close>), and let \<open>lambda = alpha\<^sup>2 (n + kappa) - n\<close>. With \<open>U\<close> the result of the
  injected square root on \<open>(lambda + n) Pm\<close>, of at least \<open>n\<close> rows, and the injected
  \<open>subtract\<close> returning vectors of \<open>n\<close> entries, \<^verbatim>\<open>sigma_points\<close> returns \<open>2n + 1\<close> rows
  of \<open>n\<close> entries: row \<open>0\<close> is the mean, row \<open>k + 1\<close> is \<open>subtract(x, -U[k])\<close> and row
  \<open>n + k + 1\<close> is \<open>subtract(x, U[k])\<close>. The example has \<open>n = 2\<close>, \<open>alpha = 1\<close>, \<open>kappa = 1\<close>
  (so \<open>lambda = 1\<close>), the scalar covariance \<open>3\<close> and the default functions.
\<close>

theorem merwe_sigma_points_rows:
  fixes self :: MerweScaledSigmaPoints
  assumes n: "merwe_n self = n"
    and lam: "lam = (merwe_alpha self)\<^sup>2 * (real n + merwe_kappa self) - real n"
    and Pm: "Pm = (case P of PScalar p \<Rightarrow> map (\<lambda>i. map (\<lambda>j. if i = j then p else 0) [0..<n]) [0..<n]
                            | PMat M \<Rightarrow> M)"
    and size: "np_size x = n"
    and xv: "entries (asarray_if_scalar x) = Inr xv"
    and U: "merwe_sqrt self (map (map (\<lambda>a. (lam + real n) * a)) Pm) = Inr U"
    and rows: "n \<le> length U"
    and sub: "\<forall>k<n. \<exists>p m.
            merwe_subtract self xv (map uminus (U ! k)) = Inr p \<and> length p = n
          \<and> merwe_subtract self xv (U ! k) = Inr m \<and> length m = n"
  shows "\<exists>S. merwe_sigma_points self x P = Inr S \<and> length S = 2 * n + 1
     \<and> (\<forall>i<2 * n + 1. length (S ! i) = n) \<and> S ! 0 = xv
     \<and> (\<forall>k<n. merwe_subtract self xv (map uminus (U ! k)) = Inr (S ! (k + 1))
              \<and> merwe_subtract self xv (U ! k) = Inr (S ! (n + k + 1)))"
proof -
  have l: "merwe_lambda (merwe_n self) (merwe_alpha self) (merwe_kappa self) = lam"
    unfolding lam n by (simp add: merwe_lambda_def)
  have A: "scale (lam + real n) (as_matrix n P) = map (map (\<lambda>a. (lam + real n) * a)) Pm"
    unfolding Pm as_matrix_explicit[symmetric] by (simp add: scale_def)
  have U': "merwe_sqrt self
      (scale (merwe_lambda (merwe_n self) (merwe_alpha self) (merwe_kappa self) + real (merwe_n self))
         (as_matrix (merwe_n self) P)) = Inr U"
    unfolding l unfolding n A by (rule U)
  have size': "np_size x = merwe_n self" using size n by simp
  have rows': "merwe_n self \<le> length U" using rows n by simp
  have sub': "\<forall>k<merwe_n self. \<exists>p m.
            merwe_subtract self xv (map uminus (U ! k)) = Inr p \<and> length p = merwe_n self
          \<and> merwe_subtract self xv (U ! k) = Inr m \<and> length m = merwe_n self"
    using sub n by simp
  from merwe_sigma_points_aux[OF size' xv U' rows' sub'] show ?thesis unfolding n .
qed

theorem merwe_sigma_points_rows_witness:
  "merwe_sigma_points
     \<lparr>merwe_n = 2, merwe_alpha = 1, merwe_beta = 2, merwe_kappa = 1, merwe_sqrt = cholesky,
      merwe_subtract = np_subtract, merwe_Wc = [7 / 3, 1 / 6, 1 / 6, 1 / 6, 1 / 6],
      merwe_Wm = [1 / 3, 1 / 6, 1 / 6, 1 / 6, 1 / 6]\<rparr>
     (PyList [1, 2]) (PScalar 3) = Inr [[1, 2], [4, 2], [1, 5], [- 2, 2], [1, - 1]]"
proof -
  let ?g = "\<lparr>merwe_n = 2, merwe_alpha = 1, merwe_beta = 2, merwe_kappa = 1, merwe_sqrt = cholesky,
      merwe_subtract = np_subtract, merwe_Wc = [7 / 3, 1 / 6, 1 / 6, 1 / 6, 1 / 6],
      merwe_Wm = [1 / 3, 1 / 6, 1 / 6, 1 / 6, 1 / 6]\<rparr>"
  let ?U = "[[3, 0], [0, 3 :: real]]"
  have h0: "merwe_n ?g = 2" by simp
  have h1: "(1 :: real) = (merwe_alpha ?g)\<^sup>2 * (real 2 + merwe_kappa ?g) - real 2" by simp
  have h2: "[[3, 0], [0, 3 :: real]]
      = (case PScalar 3 of PScalar p \<Rightarrow> map (\<lambda>i. map (\<lambda>j. if i = j then p else 0) [0..<2]) [0..<2]
                          | PMat M \<Rightarrow> M)"
    by (simp add: upt_0_2)
  have h3: "np_size (PyList [1, 2]) = 2" by simp
  have h4: "entries (asarray_if_scalar (PyList [1, 2])) = Inr [1, 2]" by simp
  have h5: "merwe_sqrt ?g (map (map (\<lambda>a. (1 + real 2) * a)) [[3, 0], [0, 3]]) = Inr ?U"
    using chol_9I by simp
  have h6: "2 \<le> length ?U" by simp
  have h7: "\<forall>k<2. \<exists>p m.
            merwe_subtract ?g [1, 2] (map uminus (?U ! k)) = Inr p \<and> length p = 2
          \<and> merwe_subtract ?g [1, 2] (?U ! k) = Inr m \<and> length m = 2"
    by (simp add: np_subtract_same_length less_Suc_eq numeral_2_eq_2)
  from merwe_sigma_points_rows[OF h0 h1 h2 h3 h4 h5 h6 h7]
  obtain S where S: "merwe_sigma_points ?g (PyList [1, 2]) (PScalar 3) = Inr S"
    "length S = 2 * 2 + 1" "S ! 0 = [1, 2]"
    "\<forall>k<2. merwe_subtract ?g [1, 2] (map uminus (?U ! k)) = Inr (S ! (k + 1))
          \<and> merwe_subtract ?g [1, 2] (?U ! k) = Inr (S ! (2 + k + 1))"
    by blast
  have lt: "(0::nat) < 2" "(1::nat) < 2" by simp_all
  note a0 = S(4)[rule_format, OF lt(1)] and a1 = S(4)[rule_format, OF lt(2)]
  from a0 a1 have r: "S ! 1 = [4, 2]" "S ! 3 = [- 2, 2]" "S ! 2 = [1, 5]" "S ! 4 = [1, - 1]"
    by (simp_all add: np_subtract_same_length numeral_eq_Suc)
  have "length S = 5" using S(2) by simp
  with S(3) r have "S = [[1, 2], [4, 2], [1, 5], [- 2, 2], [1, - 1]]"
    by (simp add: list_eq_iff_nth_eq less_Suc_eq numeral_eq_Suc)
  with S(1) show ?thesis by simp
qed

text \<open>
  Claim C1. With the default elementwise \<open>subtract\<close> and any injected square root whose
  result \<open>U\<close> for \<open>(lambda + n) P\<close> is an \<open>n\<close> by \<open>n\<close> array with \<open>U\<^sup>T U = (lambda + n) P\<close>, and
  \<open>n + lambda\<close> not zero: the sum of the sigma points weighted by \<open>Wm\<close> is the mean, and
  the sum of the outer products of their deviations from the mean weighted by \<open>Wc\<close> is
  \<open>P\<close> (in exact real arithmetic).
\<close>

theorem merwe_round_trip:
  fixes n :: nat and alpha beta kappa :: real and P :: cov_arg
  defines "lam \<equiv> merwe_lambda n alpha kappa"
  defines "A \<equiv> scale (lam + real n) (as_matrix n P)"
  assumes nz: "real n + lam \<noteq> 0"
    and size: "np_size x = n"
    and xv: "entries (asarray_if_scalar x) = Inr xs"
    and Prows: "length (as_matrix n P) = n"
    and Pcols: "\<forall>j<n. length (as_matrix n P ! j) = n"
    and U: "sq A = Inr U"
    and Urows: "length U = n"
    and Ucols: "\<forall>k<n. length (U ! k) = n"
    and UtU: "\<forall>j<n. \<forall>l<n. (\<Sum>k<n. U ! k ! j * U ! k ! l) = A ! j ! l"
  shows "\<exists>g S. MerweScaledSigmaPoints_init n alpha beta kappa (Some sq) None = Inr g
     \<and> merwe_sigma_points g x P = Inr S
     \<and> (\<forall>j<n. (\<Sum>i<2 * n + 1. merwe_Wm g ! i * S ! i ! j) = xs ! j)
     \<and> (\<forall>j<n. \<forall>l<n. (\<Sum>i<2 * n + 1. merwe_Wc g ! i * (S ! i ! j - xs ! j) * (S ! i ! l - xs ! l))
            = as_matrix n P ! j ! l)"
proof -
  from merwe_init_aux[OF nz[unfolded lam_def], of beta "Some sq" None]
  obtain g where g: "MerweScaledSigmaPoints_init n alpha beta kappa (Some sq) None = Inr g"
    "merwe_n g = n" "merwe_alpha g = alpha" "merwe_kappa g = kappa"
    "merwe_sqrt g = sq" "merwe_subtract g = np_subtract"
    "merwe_Wm g = (replicate (2 * n + 1) (0.5 / (real n + lam)))[0 := lam / (real n + lam)]"
    "merwe_Wc g = (replicate (2 * n + 1) (0.5 / (real n + lam)))
                     [0 := lam / (real n + lam) + (1 - alpha\<^sup>2 + beta)]"
    unfolding lam_def by auto
  have lx: "length xs = n" using entries_length[OF xv] size by simp
  have subs: "\<forall>k<merwe_n g. \<exists>p m. merwe_subtract g xs (map uminus (U ! k)) = Inr p \<and> length p = merwe_n g
          \<and> merwe_subtract g xs (U ! k) = Inr m \<and> length m = merwe_n g"
    using lx Ucols by (simp add: g np_subtract_same_length)
  have U': "merwe_sqrt g (scale (merwe_lambda (merwe_n g) (merwe_alpha g) (merwe_kappa g) + real (merwe_n g))
               (as_matrix (merwe_n g) P)) = Inr U"
    using U by (simp add: g A_def lam_def)
  from merwe_sigma_points_aux[of x g xs P U, OF _ xv U' _ subs]
  obtain S where S: "merwe_sigma_points g x P = Inr S" "length S = 2 * n + 1" "S ! 0 = xs"
    "\<forall>k<n. np_subtract xs (map uminus (U ! k)) = Inr (S ! (k + 1))
              \<and> np_subtract xs (U ! k) = Inr (S ! (n + k + 1))"
    using size Urows by (auto simp add: g)
  define c where "c = 0.5 / (real n + lam)"
  have c2: "2 * c = 1 / (real n + lam)" using nz by (simp add: c_def field_simps)
  have plus: "S ! (Suc k) ! j = xs ! j + U ! k ! j" if "k < n" "j < n" for k j
  proof -
    have "np_subtract xs (map uminus (U ! k)) = Inr (map2 (-) xs (map uminus (U ! k)))"
      using lx Ucols that by (simp add: np_subtract_same_length)
    then have "S ! (Suc k) = map2 (-) xs (map uminus (U ! k))" using S(4) that by simp
    then show ?thesis using lx Ucols that by simp
  qed
  have minus: "S ! (Suc (n + k)) ! j = xs ! j - U ! k ! j" if "k < n" "j < n" for k j
  proof -
    have "np_subtract xs (U ! k) = Inr (map2 (-) xs (U ! k))"
      using lx Ucols that by (simp add: np_subtract_same_length)
    then have "S ! (Suc (n + k)) = map2 (-) xs (U ! k)" using S(4) that by simp
    then show ?thesis using lx Ucols that by simp
  qed
  have Wm0: "merwe_Wm g ! 0 = lam / (real n + lam)" by (simp add: g)
  have Wc0: "merwe_Wc g ! 0 = lam / (real n + lam) + (1 - alpha\<^sup>2 + beta)" by (simp add: g)
  have Wm1: "merwe_Wm g ! (Suc k) = c" "merwe_Wm g ! (Suc (n + k)) = c" if "k < n" for k
    using that by (simp_all add: g c_def)
  have Wc1: "merwe_Wc g ! (Suc k) = c" "merwe_Wc g ! (Suc (n + k)) = c" if "k < n" for k
    using that by (simp_all add: g c_def)
  have mean: "(\<Sum>i<2 * n + 1. merwe_Wm g ! i * S ! i ! j) = xs ! j" if j: "j < n" for j
  proof -
    have "(\<Sum>i<2 * n + 1. merwe_Wm g ! i * S ! i ! j)
        = merwe_Wm g ! 0 * S ! 0 ! j + (\<Sum>k<n. merwe_Wm g ! (Suc k) * S ! (Suc k) ! j)
          + (\<Sum>k<n. merwe_Wm g ! (Suc (n + k)) * S ! (Suc (n + k)) ! j)"
      by (rule sum_sigma_split)
    also have "(\<Sum>k<n. merwe_Wm g ! (Suc k) * S ! (Suc k) ! j) = (\<Sum>k<n. c * (xs ! j + U ! k ! j))"
      by (rule sum.cong) (simp_all add: Wm1 plus j)
    also have "(\<Sum>k<n. merwe_Wm g ! (Suc (n + k)) * S ! (Suc (n + k)) ! j) = (\<Sum>k<n. c * (xs ! j - U ! k ! j))"
      by (rule sum.cong) (simp_all add: Wm1 minus j)
    also have "merwe_Wm g ! 0 * S ! 0 ! j + (\<Sum>k<n. c * (xs ! j + U ! k ! j)) + (\<Sum>k<n. c * (xs ! j - U ! k ! j))
        = lam / (real n + lam) * xs ! j + (\<Sum>k<n. 2 * c * xs ! j)"
      by (simp add: Wm0 S(3) sum.distrib[symmetric] algebra_simps)
    also have "\<dots> = lam / (real n + lam) * xs ! j + real n * (2 * c) * xs ! j"
      by simp
    also have "\<dots> = lam / (real n + lam) * xs ! j + real n / (real n + lam) * xs ! j"
      by (simp only: c2 times_divide_eq_right mult_1_right)
    also have "\<dots> = xs ! j"
      using nz by (rule split_unit)
    finally show ?thesis .
  qed
  have cov: "(\<Sum>i<2 * n + 1. merwe_Wc g ! i * (S ! i ! j - xs ! j) * (S ! i ! l - xs ! l))
            = as_matrix n P ! j ! l" if j: "j < n" and l: "l < n" for j l
  proof -
    have "(\<Sum>i<2 * n + 1. merwe_Wc g ! i * (S ! i ! j - xs ! j) * (S ! i ! l - xs ! l))
        = merwe_Wc g ! 0 * (S ! 0 ! j - xs ! j) * (S ! 0 ! l - xs ! l)
          + (\<Sum>k<n. merwe_Wc g ! (Suc k) * (S ! (Suc k) ! j - xs ! j) * (S ! (Suc k) ! l - xs ! l))
          + (\<Sum>k<n. merwe_Wc g ! (Suc (n + k)) * (S ! (Suc (n + k)) ! j - xs ! j) * (S ! (Suc (n + k)) ! l - xs ! l))"
      by (rule sum_sigma_split)
    also have "(\<Sum>k<n. merwe_Wc g ! (Suc k) * (S ! (Suc k) ! j - xs ! j) * (S ! (Suc k) ! l - xs ! l))
        = (\<Sum>k<n. c * (U ! k ! j * U ! k ! l))"
      by (rule sum.cong) (simp_all add: Wc1 plus j l)
    also have "(\<Sum>k<n. merwe_Wc g ! (Suc (n + k)) * (S ! (Suc (n + k)) ! j - xs ! j) * (S ! (Suc (n + k)) ! l - xs ! l))
        = (\<Sum>k<n. c * (U ! k ! j * U ! k ! l))"
      by (rule sum.cong) (simp_all add: Wc1 minus j l)
    also have "merwe_Wc g ! 0 * (S ! 0 ! j - xs ! j) * (S ! 0 ! l - xs ! l)
          + (\<Sum>k<n. c * (U ! k ! j * U ! k ! l)) + (\<Sum>k<n. c * (U ! k ! j * U ! k ! l))
        = 2 * c * (\<Sum>k<n. U ! k ! j * U ! k ! l)"
      by (simp add: S(3) sum_distrib_left mult.assoc)
    also have "(\<Sum>k<n. U ! k ! j * U ! k ! l) = (lam + real n) * as_matrix n P ! j ! l"
      using UtU j l Prows Pcols by (simp add: A_def scale_nth)
    also have "2 * c * ((lam + real n) * as_matrix n P ! j ! l) = as_matrix n P ! j ! l"
      using nz unfolding c2 by (simp add: add.commute)
    finally show ?thesis .
  qed
  show ?thesis using g(1) S(1) mean cov by blast
qed

theorem merwe_round_trip_witness:
  "\<exists>g S. MerweScaledSigmaPoints_init 1 1 2 0 (Some cholesky) None = Inr g
     \<and> merwe_sigma_points g (PyScalar 3) (PScalar 4) = Inr S
     \<and> (\<Sum>i<3. merwe_Wm g ! i * S ! i ! 0) = 3
     \<and> (\<Sum>i<3. merwe_Wc g ! i * (S ! i ! 0 - 3) * (S ! i ! 0 - 3)) = 4"
proof -
  have lam: "merwe_lambda 1 1 0 = 0" by (simp add: merwe_lambda_def)
  have A: "scale (merwe_lambda 1 1 0 + real 1) (as_matrix 1 (PScalar 4)) = [[4]]"
    using lam by (simp add: scale_def eye_times_def)
  have h1: "real 1 + merwe_lambda 1 1 0 \<noteq> 0" using lam by simp
  have h2: "np_size (PyScalar 3) = 1" by simp
  have h3: "entries (asarray_if_scalar (PyScalar 3)) = Inr [3]" by simp
  have h4: "length (as_matrix 1 (PScalar 4)) = 1" by (simp add: eye_times_def)
  have h5: "\<forall>j<1. length (as_matrix 1 (PScalar 4) ! j) = 1" by (simp add: eye_times_def)
  have h6: "cholesky (scale (merwe_lambda 1 1 0 + real 1) (as_matrix 1 (PScalar 4))) = Inr [[2]]"
    unfolding A by (rule chol_4)
  have h7: "length [[2::real]] = 1" by simp
  have h8: "\<forall>k<1. length ([[2::real]] ! k) = 1" by simp
  have h9: "\<forall>j<1. \<forall>l<1. (\<Sum>k<1. [[2::real]] ! k ! j * [[2]] ! k ! l)
              = scale (merwe_lambda 1 1 0 + real 1) (as_matrix 1 (PScalar 4)) ! j ! l"
    unfolding A by simp
  from merwe_round_trip[where sq = cholesky and beta = 2, OF h1 h2 h3 h4 h5 h6 h7 h8 h9]
  obtain g S where gS: "MerweScaledSigmaPoints_init 1 1 2 0 (Some cholesky) None = Inr g"
    "merwe_sigma_points g (PyScalar 3) (PScalar 4) = Inr S"
    "\<forall>j<1. (\<Sum>i<2 * 1 + 1. merwe_Wm g ! i * S ! i ! j) = [3] ! j"
    "\<forall>j<1. \<forall>l<1. (\<Sum>i<2 * 1 + 1. merwe_Wc g ! i * (S ! i ! j - [3] ! j) * (S ! i ! l - [3] ! l))
            = as_matrix 1 (PScalar 4) ! j ! l"
    by blast
  from gS(3) have m: "(\<Sum>i<3. merwe_Wm g ! i * S ! i ! 0) = 3" by simp
  from gS(4) have c: "(\<Sum>i<3. merwe_Wc g ! i * (S ! i ! 0 - 3) * (S ! i ! 0 - 3)) = 4"
    by (simp add: eye_times_def)
  from gS(1,2) m c show ?thesis by blast
qed

subsection \<open>The weights of all four generators\<close>

text \<open>
  Claim C2. The mean weights sum to one for every generator whose weight computation is
  defined: for MerweScaledSigmaPoints when \<open>n + lambda\<close> is not zero, for
  JulierSigmaPoints when \<open>n + kappa\<close> is not zero, for SimplexSigmaPoints always, and
  for GeneralizedSigmaPoints whenever the constructor, \<^verbatim>\<open>_compute_weights\<close> (with
  either value of \<open>compute_free_parameter\<close>) or the constrained \<^verbatim>\<open>sigma_points\<close>,
  which recomputes the weights, returns (in exact real arithmetic).
\<close>

theorem weights_sum_to_one:
  "(real n + merwe_lambda n alpha kappa \<noteq> 0 \<longrightarrow>
      (\<exists>g. MerweScaledSigmaPoints_init n alpha beta kappa sq sub = Inr g \<and> sum_list (merwe_Wm g) = 1))
   \<and> (real n + kappa \<noteq> 0 \<longrightarrow>
      (\<exists>g. JulierSigmaPoints_init n kappa sq sub = Inr g \<and> sum_list (julier_Wm g) = 1))
   \<and> sum_list (simplex_Wm (SimplexSigmaPoints_init n alpha sq sub2)) = 1
   \<and> (GeneralizedSigmaPoints_init n P S K constrained k x = Inr g1 \<longrightarrow> sum_list (gen_Wm g1) = 1)
   \<and> (gen_compute_weights free g2 = Inr g3 \<longrightarrow> sum_list (gen_Wm g3) = 1)
   \<and> (gen_positively_constrained g4 \<and> gen_sigma_points g4 x' P' = Inr (g5, sigmas) \<longrightarrow>
        sum_list (gen_Wm g5) = 1)"
  using merwe_sum[of n alpha kappa beta sq sub] julier_sum[of n kappa sq sub]
    simplex_sum[of n alpha sq sub2] gen_init_sum[of n P S K constrained k x g1]
    gen_compute_weights_sum[of free g2 g3] gen_sigma_points_sum[of g4 x' P' g5 sigmas]
  by blast

theorem weights_sum_to_one_witness:
  "(\<exists>g. MerweScaledSigmaPoints_init 1 1 2 0 None None = Inr g \<and> sum_list (merwe_Wm g) = 1)
   \<and> (\<exists>g. JulierSigmaPoints_init 2 0 None None = Inr g \<and> sum_list (julier_Wm g) = 1)
   \<and> sum_list (simplex_Wm (SimplexSigmaPoints_init 2 1 None None)) = 1
   \<and> GeneralizedSigmaPoints_init 1 (PScalar 1) (MScalar 0) (MScalar 1) True (Some (1 / 2)) (PyScalar 5)
        = Inr gen_symmetric
   \<and> gen_compute_weights False gen_symmetric = Inr gen_symmetric
   \<and> gen_sigma_points gen_symmetric (PyScalar 5) (PScalar 4) = Inr (gen_symmetric, [[5], [3], [7]])
   \<and> sum_list (gen_Wm gen_symmetric) = 1"
proof -
  have h1: "real 1 + merwe_lambda 1 1 0 \<noteq> 0" by (simp add: merwe_lambda_def)
  have h2: "real 2 + 0 \<noteq> 0" by simp
  note t = weights_sum_to_one[where n = 1 and alpha = 1 and kappa = 0 and beta = 2 and sq = None
      and sub = None and P = "PScalar 1" and S = "MScalar 0" and K = "MScalar 1"
      and constrained = True and k = "Some (1 / 2)" and x = "PyScalar 5" and ?g1.0 = gen_symmetric]
  from t h1 have a: "\<exists>g. MerweScaledSigmaPoints_init 1 1 2 0 None None = Inr g \<and> sum_list (merwe_Wm g) = 1"
    by blast
  have b: "\<exists>g. JulierSigmaPoints_init 2 0 None None = Inr g \<and> sum_list (julier_Wm g) = 1"
    using weights_sum_to_one[where n = 2 and kappa = 0 and sq = None and sub = None] h2 by blast
  have c: "sum_list (simplex_Wm (SimplexSigmaPoints_init 2 1 None None)) = 1"
    using weights_sum_to_one[where n = 2 and alpha = 1 and sq = None and ?sub2.0 = None] by blast
  from t gen_symmetric_init have d: "sum_list (gen_Wm gen_symmetric) = 1" by blast
  show ?thesis
    using a b c d gen_symmetric_init gen_symmetric_weights[of False] gen_symmetric_call by blast
qed

subsection \<open>The size check of \<^verbatim>\<open>sigma_points\<close>\<close>

text \<open>
  Claim C5. In each of the four classes, \<^verbatim>\<open>sigma_points\<close> called with a mean whose
  number of elements differs from \<open>n\<close> raises ValueError; the check is the first
  statement of the method, so nothing else has been computed.
\<close>

theorem dimension_mismatch_raises:
  "(np_size x \<noteq> merwe_n m \<longrightarrow> merwe_sigma_points m x P = Inl ValueError)
   \<and> (np_size x \<noteq> julier_n j \<longrightarrow> julier_sigma_points j x P = Inl ValueError)
   \<and> (np_size x \<noteq> simplex_n s \<longrightarrow> simplex_sigma_points s x P = Inl ValueError)
   \<and> (np_size x \<noteq> gen_n g \<longrightarrow> gen_sigma_points g x P = Inl ValueError)"
  using dimension_mismatch_aux[of x] by blast

theorem dimension_mismatch_raises_witness:
  "merwe_sigma_points
     \<lparr>merwe_n = 2, merwe_alpha = 1, merwe_beta = 2, merwe_kappa = 0, merwe_sqrt = cholesky,
      merwe_subtract = np_subtract, merwe_Wc = [2, 1 / 4, 1 / 4, 1 / 4, 1 / 4],
      merwe_Wm = [0, 1 / 4, 1 / 4, 1 / 4, 1 / 4]\<rparr> (PyList [1, 2, 3]) (PScalar 1) = Inl ValueError
   \<and> julier_sigma_points
     \<lparr>julier_n = 2, julier_kappa = 0, julier_sqrt = cholesky, julier_subtract = np_subtract,
      julier_Wm = [0, 1 / 4, 1 / 4, 1 / 4, 1 / 4], julier_Wc = [0, 1 / 4, 1 / 4, 1 / 4, 1 / 4]\<rparr>
     (PyScalar 1) (PScalar 1) = Inl ValueError
   \<and> simplex_sigma_points (SimplexSigmaPoints_init 2 1 None None) (NdArray [1, 2, 3]) (PScalar 1)
       = Inl ValueError
   \<and> gen_sigma_points gen_list_mean (PyList [1, 2, 3]) (PScalar 1) = Inl ValueError"
proof -
  let ?m = "\<lparr>merwe_n = 2, merwe_alpha = 1, merwe_beta = 2, merwe_kappa = 0, merwe_sqrt = cholesky,
      merwe_subtract = np_subtract, merwe_Wc = [2, 1 / 4, 1 / 4, 1 / 4, 1 / 4],
      merwe_Wm = [0, 1 / 4, 1 / 4, 1 / 4, 1 / 4]\<rparr>"
  let ?j = "\<lparr>julier_n = 2, julier_kappa = 0, julier_sqrt = cholesky, julier_subtract = np_subtract,
      julier_Wm = [0, 1 / 4, 1 / 4, 1 / 4, 1 / 4], julier_Wc = [0, 1 / 4, 1 / 4, 1 / 4, 1 / 4]\<rparr>"
  have h1: "np_size (PyList [1, 2, 3]) \<noteq> merwe_n ?m" by simp
  have h2: "np_size (PyScalar 1) \<noteq> julier_n ?j" by simp
  have h3: "np_size (NdArray [1, 2, 3]) \<noteq> simplex_n (SimplexSigmaPoints_init 2 1 None None)"
    by (simp add: SimplexSigmaPoints_init_def simplex_compute_weights_def Let_def)
  have h4: "np_size (PyList [1, 2, 3]) \<noteq> gen_n gen_list_mean" by (simp add: gen_list_mean_fields)
  from dimension_mismatch_raises[of "PyList [1, 2, 3]" ?m "PScalar 1" ?j _ gen_list_mean] h1 h4
  have a: "merwe_sigma_points ?m (PyList [1, 2, 3]) (PScalar 1) = Inl ValueError"
    and d: "gen_sigma_points gen_list_mean (PyList [1, 2, 3]) (PScalar 1) = Inl ValueError"
    by blast+
  from dimension_mismatch_raises[of "PyScalar 1" ?m "PScalar 1" ?j] h2
  have b: "julier_sigma_points ?j (PyScalar 1) (PScalar 1) = Inl ValueError" by blast
  from dimension_mismatch_raises[of "NdArray [1, 2, 3]" ?m "PScalar 1" ?j "SimplexSigmaPoints_init 2 1 None None"] h3
  have c: "simplex_sigma_points (SimplexSigmaPoints_init 2 1 None None) (NdArray [1, 2, 3]) (PScalar 1)
       = Inl ValueError" by blast
  from a b c d show ?thesis by blast
qed

subsection \<open>JulierSigmaPoints with \<open>n = 2\<close> and \<open>kappa = 0\<close>\<close>

text \<open>
  Claim C8. With the default square root and subtraction, \<open>n = 2\<close> and \<open>kappa = 0\<close>:
  \<open>Wm[0] = Wc[0] = 0\<close>, the other four weights are \<open>1/4\<close>, and
  \<^verbatim>\<open>sigma_points([0,0], identity)\<close> returns the five points \<open>[0,0]\<close>,
  \<open>[\<surd>2,0]\<close>, \<open>[0,\<surd>2]\<close>, \<open>[-\<surd>2,0]\<close>, \<open>[0,-\<surd>2]\<close>.
\<close>

theorem julier_example:
  "\<exists>g. JulierSigmaPoints_init 2 0 None None = Inr g
     \<and> julier_Wm g = [0, 1 / 4, 1 / 4, 1 / 4, 1 / 4]
     \<and> julier_Wc g = [0, 1 / 4, 1 / 4, 1 / 4, 1 / 4]
     \<and> julier_sigma_points g (PyList [0, 0]) (PMat [[1, 0], [0, 1]])
          = Inr [[0, 0], [sqrt 2, 0], [0, sqrt 2], [- sqrt 2, 0], [0, - sqrt 2]]"
  using julier_n2_init julier_n2_points by simp

subsection \<open>GeneralizedSigmaPoints: the consistency tests\<close>

text \<open>
  Claim C6, evaluated on the code. The object is built with mean \<open>5\<close> and covariance
  \<open>1\<close>, constrained. A later call with the same mean and the covariance \<open>4\<close> is not
  flagged: both tests compare the mean, and the call returns points computed from the
  new covariance. A later call with another mean raises Warning.
\<close>

theorem gen_covariance_change_not_flagged:
  "GeneralizedSigmaPoints_init 1 (PScalar 1) (MScalar 0) (MScalar 1) True (Some (1 / 2)) (PyScalar 5)
     = Inr gen_symmetric
   \<and> gen_sigma_points gen_symmetric (PyScalar 5) (PScalar 4) = Inr (gen_symmetric, [[5], [3], [7]])
   \<and> gen_sigma_points gen_symmetric (PyScalar 6) (PScalar 1) = Inl Warning"
  using gen_symmetric_init gen_symmetric_call gen_symmetric_other_mean by simp

text \<open>
  Claim C9 as amended. For \<open>n \<ge> 2\<close>, a call of \<^verbatim>\<open>sigma_points\<close> raises ValueError when
  its mean is a numpy array, and also when its mean is a Python list or tuple and the
  stored mean is a numpy array. A call with a list or tuple of \<open>n\<close> entries raises Warning
  when the stored mean is \<open>None\<close>, or is a list or tuple that is not equal to it (a list
  and a tuple are never equal). When the supplied and the stored mean are the same list,
  or the same tuple, the comparison is a bool, both tests pass and the call is the rest
  of the method: the points loop and, if constrained, the correction. The constructor
  with \<open>positively_constrained\<close> and a numpy array of \<open>n \<ge> 2\<close> entries as mean never
  returns: it raises what \<^verbatim>\<open>_compute_weights\<close> raises, or else the ValueError of the call
  of \<^verbatim>\<open>sigma_points\<close>.
\<close>

theorem gen_sigma_points_raises:
  "(2 \<le> gen_n g \<longrightarrow> gen_sigma_points g (NdArray a) P = Inl ValueError)
   \<and> (2 \<le> gen_n g \<and> (x = PyList a \<or> x = PyTuple a) \<and> gen_x g = NdArray b \<longrightarrow>
        gen_sigma_points g x P = Inl ValueError)
   \<and> (length a = gen_n g \<and> (x = PyList a \<or> x = PyTuple a)
        \<and> (gen_x g = PyNone \<or> ((gen_x g = PyList b \<or> gen_x g = PyTuple b) \<and> gen_x g \<noteq> x)) \<longrightarrow>
        gen_sigma_points g x P = Inl Warning)
   \<and> (length a = gen_n g \<and> (x = PyList a \<or> x = PyTuple a) \<and> gen_x g = x \<longrightarrow>
        gen_sigma_points g x P
          = bind_err (gen_points_loop x (as_matrix (gen_n g) P) (gen_s g) (gen_n g) [1..<gen_n g + 1]
                        (zeros (2 * gen_n g + 1) (gen_n g))) (\<lambda>sigmas.
              if gen_positively_constrained g
              then bind_err (gen_redefine_scale_param g sigmas) (\<lambda>self.
                   bind_err (gen_compute_weights False self) (\<lambda>self.
                   bind_err (gen_points_loop x (as_matrix (gen_n g) P) (gen_s self) (gen_n g)
                               [1..<gen_n g + 1] sigmas) (\<lambda>sigmas.
                   Inr (self, sigmas))))
              else Inr (g, sigmas)))
   \<and> (2 \<le> n \<longrightarrow>
        GeneralizedSigmaPoints_init n P' S K True k (NdArray a')
          = bind_err (gen_compute_weights True
               \<lparr>gen_n = n, gen_x = NdArray a', gen_P = as_matrix n P', gen_S = moment_vec S,
                gen_K = moment_vec K, gen_k = k, gen_positively_constrained = True,
                gen_s = replicate (2 * n + 1) 0, gen_Wm = [], gen_Wc = []\<rparr>)
              (\<lambda>self. Inl ValueError))"
  using gen_sigma_points_array[of g a P] gen_sequence_vs_array[of g x a b P]
    gen_sequence_differs[of a g x b P] gen_sequence_same[of a g x P]
    gen_init_array[of n P' S K k a']
  by blast

theorem gen_sigma_points_raises_witness:
  "gen_sigma_points gen_list_mean (NdArray [1, 2]) (PMat [[1, 0], [0, 1]]) = Inl ValueError
   \<and> gen_sigma_points gen_array_mean (PyTuple [1, 2]) (PMat [[1, 0], [0, 1]]) = Inl ValueError
   \<and> gen_sigma_points gen_list_mean (PyList [1, 3]) (PMat [[1, 0], [0, 1]]) = Inl Warning
   \<and> gen_sigma_points gen_list_mean (PyTuple [1, 2]) (PMat [[1, 0], [0, 1]]) = Inl Warning
   \<and> GeneralizedSigmaPoints_init 2 (PMat [[1, 0], [0, 1]]) (MVec [0, 0]) (MVec [1, 1]) False None
        (PyTuple [1, 2]) = Inr gen_tuple_mean
   \<and> gen_sigma_points gen_tuple_mean (PyTuple [1, 2]) (PMat [[1, 0], [0, 1]])
        = Inr (gen_tuple_mean, [[1, 2], [0, 2], [1, 1], [2, 2], [1, 3]])
   \<and> GeneralizedSigmaPoints_init 2 (PMat [[1, 0], [0, 1]]) (MVec [0, 0]) (MVec [1, 1]) True (Some 1)
        (NdArray [1, 2]) = Inl ValueError"
proof -
  let ?I = "PMat [[1, 0], [0, 1]]"
  have n1: "2 \<le> gen_n gen_list_mean" by (simp add: gen_list_mean_fields)
  have n2: "2 \<le> gen_n gen_array_mean" by (simp add: gen_array_mean_def)
  have a: "gen_sigma_points gen_list_mean (NdArray [1, 2]) ?I = Inl ValueError"
    using gen_sigma_points_raises[where g = gen_list_mean and a = "[1, 2]" and P = ?I] n1 by blast
  have b: "gen_sigma_points gen_array_mean (PyTuple [1, 2]) ?I = Inl ValueError"
  proof -
    have "2 \<le> gen_n gen_array_mean \<and> (PyTuple [1, 2] = PyList [1, 2] \<or> PyTuple [1, 2] = PyTuple [1, 2])
        \<and> gen_x gen_array_mean = NdArray [1, 2]"
      by (simp add: gen_array_mean_def)
    with gen_sigma_points_raises[where g = gen_array_mean and x = "PyTuple [1, 2]" and a = "[1, 2]"
        and b = "[1, 2]" and P = ?I]
    show ?thesis by blast
  qed
  have c: "gen_sigma_points gen_list_mean (PyList [1, 3]) ?I = Inl Warning"
  proof -
    have "length [1, 3 :: real] = gen_n gen_list_mean
        \<and> (PyList [1, 3] = PyList [1, 3] \<or> PyList [1, 3] = PyTuple [1, 3])
        \<and> (gen_x gen_list_mean = PyNone
            \<or> ((gen_x gen_list_mean = PyList [1, 2] \<or> gen_x gen_list_mean = PyTuple [1, 2])
                \<and> gen_x gen_list_mean \<noteq> PyList [1, 3]))"
      by (simp add: gen_list_mean_fields)
    with gen_sigma_points_raises[where g = gen_list_mean and x = "PyList [1, 3]" and a = "[1, 3]"
        and b = "[1, 2]" and P = ?I]
    show ?thesis by blast
  qed
  have d: "gen_sigma_points gen_list_mean (PyTuple [1, 2]) ?I = Inl Warning"
  proof -
    have "length [1, 2 :: real] = gen_n gen_list_mean
        \<and> (PyTuple [1, 2] = PyList [1, 2] \<or> PyTuple [1, 2] = PyTuple [1, 2])
        \<and> (gen_x gen_list_mean = PyNone
            \<or> ((gen_x gen_list_mean = PyList [1, 2] \<or> gen_x gen_list_mean = PyTuple [1, 2])
                \<and> gen_x gen_list_mean \<noteq> PyTuple [1, 2]))"
      by (simp add: gen_list_mean_fields)
    with gen_sigma_points_raises[where g = gen_list_mean and x = "PyTuple [1, 2]" and a = "[1, 2]"
        and b = "[1, 2]" and P = ?I]
    show ?thesis by blast
  qed
  have e: "gen_sigma_points gen_tuple_mean (PyTuple [1, 2]) ?I
        = Inr (gen_tuple_mean, [[1, 2], [0, 2], [1, 1], [2, 2], [1, 3]])"
  proof -
    have "length [1, 2 :: real] = gen_n gen_tuple_mean
        \<and> (PyTuple [1, 2] = PyList [1, 2] \<or> PyTuple [1, 2] = PyTuple [1, 2])
        \<and> gen_x gen_tuple_mean = PyTuple [1, 2]"
      by (simp add: gen_tuple_mean_fields)
    with gen_sigma_points_raises[where g = gen_tuple_mean and x = "PyTuple [1, 2]" and a = "[1, 2]"
        and P = ?I]
    have "gen_sigma_points gen_tuple_mean (PyTuple [1, 2]) ?I
          = bind_err (gen_points_loop (PyTuple [1, 2]) (as_matrix (gen_n gen_tuple_mean) ?I)
                        (gen_s gen_tuple_mean) (gen_n gen_tuple_mean) [1..<gen_n gen_tuple_mean + 1]
                        (zeros (2 * gen_n gen_tuple_mean + 1) (gen_n gen_tuple_mean))) (\<lambda>sigmas.
              if gen_positively_constrained gen_tuple_mean
              then bind_err (gen_redefine_scale_param gen_tuple_mean sigmas) (\<lambda>self.
                   bind_err (gen_compute_weights False self) (\<lambda>self.
                   bind_err (gen_points_loop (PyTuple [1, 2]) (as_matrix (gen_n gen_tuple_mean) ?I)
                               (gen_s self) (gen_n gen_tuple_mean)
                               [1..<gen_n gen_tuple_mean + 1] sigmas) (\<lambda>sigmas.
                   Inr (self, sigmas))))
              else Inr (gen_tuple_mean, sigmas))"
      by blast
    then show ?thesis
      by (simp only: gen_tuple_mean_fields gen_tuple_mean_points bind_err_Inr if_False)
  qed
  have f: "GeneralizedSigmaPoints_init 2 ?I (MVec [0, 0]) (MVec [1, 1]) True (Some 1)
        (NdArray [1, 2]) = Inl ValueError"
  proof -
    have "(2::nat) \<le> 2" by simp
    with gen_sigma_points_raises[where n = 2 and P' = ?I and S = "MVec [0, 0]" and K = "MVec [1, 1]"
      and k = "Some 1" and a' = "[1, 2]"]
    have "GeneralizedSigmaPoints_init 2 ?I (MVec [0, 0]) (MVec [1, 1]) True (Some 1) (NdArray [1, 2])
      = bind_err (gen_compute_weights True
               \<lparr>gen_n = 2, gen_x = NdArray [1, 2], gen_P = as_matrix 2 ?I,
                gen_S = moment_vec (MVec [0, 0]),
                gen_K = moment_vec (MVec [1, 1]), gen_k = Some 1, gen_positively_constrained = True,
                gen_s = replicate (2 * 2 + 1) 0, gen_Wm = [], gen_Wc = []\<rparr>)
              (\<lambda>self. Inl ValueError)"
      by blast
    then show ?thesis by (simp only: gen_array_mean_weights bind_err_Inr)
  qed
  from a b c d e f gen_tuple_mean_init show ?thesis by blast
qed

text \<open>
  The claim C9 as stated fails when the means are Python lists (or tuples): their
  comparison is a bool. The object is built with \<open>n = 2\<close> and the mean \<open>[1., 2.]\<close>; the call with the
  same list returns the five points.
\<close>

theorem gen_list_mean_returns:
  "GeneralizedSigmaPoints_init 2 (PMat [[1, 0], [0, 1]]) (MVec [0, 0]) (MVec [1, 1]) False None
     (PyList [1, 2]) = Inr gen_list_mean
   \<and> gen_n gen_list_mean = 2
   \<and> gen_sigma_points gen_list_mean (PyList [1, 2]) (PMat [[1, 0], [0, 1]])
       = Inr (gen_list_mean, [[1, 2], [0, 2], [1, 1], [2, 2], [1, 3]])"
  using gen_list_mean_init gen_list_mean_call gen_list_mean_fields(1) by simp

subsection \<open>GeneralizedSigmaPoints: the positivity correction\<close>

text \<open>
  Claim C7, evaluated on the code. For \<open>n = 1\<close>, mean \<open>1\<close>, covariance \<open>1\<close>, skewness
  \<open>-2\<close>, kurtosis \<open>7\<close> and slack \<open>k = 1/2\<close>, the call of \<^verbatim>\<open>sigma_points\<close> made by
  the constructor (on the object after the first weight computation) corrects
  \<open>s[1]\<close> to \<open>1/2\<close>, \<^verbatim>\<open>_compute_weights\<close> then resets \<open>s[2] = s[1] + S_ = -3/2\<close>, and
  the points returned after the correction pass are \<open>[1]\<close>, \<open>[1/2]\<close>, \<open>[-1/2]\<close>: the last
  row is negative. The constructor returns that object. The same happens for \<open>n = 2\<close>
  with the list mean \<open>[10, 1/10]\<close>, the covariance \<open>[[1, 1/4], [1/4, 1]]\<close>, skewness
  \<open>[-5, 10]\<close>, kurtosis \<open>[31, 111]\<close> and \<open>k = 1/2\<close>: the row \<open>3\<close> returned after the
  correction pass is \<open>[51/10, -47/20]\<close>.
\<close>

theorem gen_constrained_negative_row:
  "gen_compute_weights True
     \<lparr>gen_n = 1, gen_x = NdArray [1], gen_P = [[1]], gen_S = [- 2], gen_K = [7],
      gen_k = Some (1 / 2), gen_positively_constrained = True,
      gen_s = replicate (2 * 1 + 1) 0, gen_Wm = [], gen_Wc = []\<rparr> = Inr gen_skewed_trial
   \<and> gen_sigma_points gen_skewed_trial (NdArray [1]) (PMat [[1]])
       = Inr (gen_skewed, [[1], [1 / 2], [- 1 / 2]])
   \<and> GeneralizedSigmaPoints_init 1 (PScalar 1) (MScalar (- 2)) (MScalar 7) True (Some (1 / 2)) (PyScalar 1)
       = Inr gen_skewed
   \<and> gen_compute_weights True
     \<lparr>gen_n = 2, gen_x = PyList [10, 1 / 10], gen_P = [[1, 1 / 4], [1 / 4, 1]],
      gen_S = [- 5, 10], gen_K = [31, 111], gen_k = Some (1 / 2),
      gen_positively_constrained = True,
      gen_s = replicate (2 * 2 + 1) 0, gen_Wm = [], gen_Wc = []\<rparr> = Inr gen_correlated_trial
   \<and> gen_sigma_points gen_correlated_trial (PyList [10, 1 / 10]) (PMat [[1, 1 / 4], [1 / 4, 1]])
       = Inr (gen_correlated,
              [[10, 1 / 10], [99 / 10, 1 / 20], [399 / 40, 1 / 20], [51 / 10, - 47 / 20],
               [601 / 40, 203 / 20]])
   \<and> GeneralizedSigmaPoints_init 2 (PMat [[1, 1 / 4], [1 / 4, 1]]) (MVec [- 5, 10]) (MVec [31, 111])
        True (Some (1 / 2)) (PyList [10, 1 / 10]) = Inr gen_correlated"
  using gen_skewed_trial_init_weights gen_skewed_trial_call gen_skewed_init
    gen_correlated_trial_weights gen_correlated_trial_call gen_correlated_init
  by simp

text \<open>
  Claim C10. \<^verbatim>\<open>_redefine_scale_param\<close> visits every row \<open>i\<close> of the \<open>2n + 1\<close> sigma
  rows and reads column \<open>i - 1\<close>. With \<open>P\<close> of \<open>n\<close> columns, a row \<open>i \<ge> n + 1\<close> with a
  negative entry keeps the method from completing; when the rows before it are
  non-negative (and \<open>P\<close> has no negative entry) the error is the IndexError of the column
  access. For row \<open>0\<close> the column is \<open>-1\<close>, the last one: with columns \<open>[1, 4]\<close> and
  \<open>[4, 16]\<close> and the mean \<open>[-4, -4]\<close>, \<open>s[0]\<close> becomes \<open>min([-4/2, -4/4]) = -2\<close>. The
  error is reachable: the object built with \<open>n = 1\<close>, mean \<open>1\<close>, covariance \<open>1\<close>,
  skewness \<open>-2\<close>, kurtosis \<open>7\<close> and \<open>k = 1/2\<close> raises IndexError on
  \<^verbatim>\<open>sigma_points(1, 1)\<close>, and so does the object built with \<open>n = 2\<close>, the list mean
  \<open>[10, 1/10]\<close>, the covariance \<open>[[1, 1/4], [1/4, 1]]\<close>, skewness \<open>[-5, 10]\<close>, kurtosis
  \<open>[31, 111]\<close> and \<open>k = 1/2\<close> on a call with its own mean and covariance.
\<close>

theorem gen_redefine_out_of_range:
  "(ncols (gen_P g) = gen_n g \<and> gen_n g + 1 \<le> i \<and> i < length sigmas \<and> (\<exists>a\<in>set (sigmas ! i). a < 0)
      \<longrightarrow> (\<exists>e. gen_redefine_scale_param g sigmas = Inl e))
   \<and> (ncols (gen_P g) = gen_n g \<and> gen_n g + 1 \<le> i \<and> i < length sigmas \<and> (\<exists>a\<in>set (sigmas ! i). a < 0)
       \<and> (\<forall>j<i. sigmas ! j \<noteq> [] \<and> (\<forall>a\<in>set (sigmas ! j). 0 \<le> a))
       \<and> (\<forall>r\<in>set (gen_P g). \<forall>a\<in>set r. 0 \<le> a)
      \<longrightarrow> gen_redefine_scale_param g sigmas = Inl IndexError)
   \<and> gen_redefine_scale_param gen_negative_mean [[- 4, - 4], [0, 0], [0, 0], [0, 0], [0, 0]]
       = Inr (gen_negative_mean\<lparr>gen_s := [- 2, 0, 0, 0, 0]\<rparr>)
   \<and> GeneralizedSigmaPoints_init 1 (PScalar 1) (MScalar (- 2)) (MScalar 7) True (Some (1 / 2)) (PyScalar 1)
       = Inr gen_skewed
   \<and> gen_sigma_points gen_skewed (PyScalar 1) (PScalar 1) = Inl IndexError
   \<and> GeneralizedSigmaPoints_init 2 (PMat [[1, 1 / 4], [1 / 4, 1]]) (MVec [- 5, 10]) (MVec [31, 111])
        True (Some (1 / 2)) (PyList [10, 1 / 10]) = Inr gen_correlated
   \<and> gen_sigma_points gen_correlated (PyList [10, 1 / 10]) (PMat [[1, 1 / 4], [1 / 4, 1]])
       = Inl IndexError"
proof -
  have a: "\<exists>e. gen_redefine_scale_param g sigmas = Inl e"
    if "ncols (gen_P g) = gen_n g" "gen_n g + 1 \<le> i" "i < length sigmas" "\<exists>a\<in>set (sigmas ! i). a < 0"
  proof -
    have "i \<in> set [0..<length sigmas]" "ncols (gen_P g) < i" using that by simp_all
    from redefine_rows_never_completes[OF this(1) that(3) this(2) that(4)]
    show ?thesis by (simp add: gen_redefine_scale_param_def)
  qed
  have b: "gen_redefine_scale_param g sigmas = Inl IndexError"
    if "ncols (gen_P g) = gen_n g" "gen_n g + 1 \<le> i" "i < length sigmas" "\<exists>a\<in>set (sigmas ! i). a < 0"
      "\<forall>j<i. sigmas ! j \<noteq> [] \<and> (\<forall>a\<in>set (sigmas ! j). 0 \<le> a)"
      "\<forall>r\<in>set (gen_P g). \<forall>a\<in>set r. 0 \<le> a"
  proof -
    have "ncols (gen_P g) < i" using that by simp
    from redefine_index_error[OF that(3) this that(4,5,6)] show ?thesis .
  qed
  from a b gen_negative_mean_redefine gen_skewed_init gen_skewed_call gen_correlated_init
    gen_correlated_call
  show ?thesis by blast
qed

theorem gen_redefine_out_of_range_witness:
  "gen_redefine_scale_param gen_skewed [[1], [1 / 2], [- 1 / 2]] = Inl IndexError"
proof -
  have h: "ncols (gen_P gen_skewed) = gen_n gen_skewed \<and> gen_n gen_skewed + 1 \<le> 2
      \<and> 2 < length [[1], [1 / 2], [- 1 / 2 :: real]]
      \<and> (\<exists>a\<in>set ([[1], [1 / 2], [- 1 / 2 :: real]] ! 2). a < 0)
      \<and> (\<forall>j<2. [[1], [1 / 2], [- 1 / 2 :: real]] ! j \<noteq> []
             \<and> (\<forall>a\<in>set ([[1], [1 / 2], [- 1 / 2 :: real]] ! j). 0 \<le> a))
      \<and> (\<forall>r\<in>set (gen_P gen_skewed). \<forall>a\<in>set r. 0 \<le> a)"
    by (simp add: gen_skewed_def ncols_def less_Suc_eq numeral_2_eq_2)
  from gen_redefine_out_of_range[where g = gen_skewed and i = 2
      and sigmas = "[[1], [1 / 2], [- 1 / 2]]"] h
  show ?thesis by blast
qed

end
